theory Spec2Isabelle
  imports Main "HOL-Library.Word"
begin

section \<open>Survey editor: data model\<close>

text \<open>
  The survey editor of the curriculum application keeps a working tree of sections,
  questions (entries), choices and grid rows, together with a snapshot of the last
  synchronised tree. This theory embeds the form types and helper functions of
  \<^verbatim>\<open>survey-types\<close> (\<^verbatim>\<open>validateSurveyEntry\<close>, \<^verbatim>\<open>transformResponseToForm\<close>,
  \<^verbatim>\<open>flattenEntriesForPayload\<close>) and the save logic of \<^verbatim>\<open>CreateSurveyForm\<close>
  (\<^verbatim>\<open>validateForm\<close>, the change detectors, \<^verbatim>\<open>handleSaveCurrentQuestion\<close>,
  \<^verbatim>\<open>handleSubmit\<close>).

  JavaScript strings are sequences of UTF-16 code units; numbers that the code only
  counts, compares and passes on are integers; an optional field is an \<open>option\<close>
  (\<open>None\<close> is \<^verbatim>\<open>undefined\<close>).
\<close>

type_synonym code_unit = "16 word"
type_synonym jsstring = "code_unit list"

text \<open>ASCII literals, for readable concrete data.\<close>

definition js :: "string \<Rightarrow> jsstring" where
  "js s = map (\<lambda>c. of_nat (of_char c)) s"

text \<open>\<^verbatim>\<open>String.fromCharCode(n)\<close>: one code unit, \<open>n\<close> modulo \<open>2^16\<close>.\<close>

definition fromCharCode :: "nat \<Rightarrow> jsstring" where
  "fromCharCode n = [of_nat n]"

text \<open>
  \<^verbatim>\<open>String.prototype.trim\<close> removes the white space and line terminator code points
  of ECMAScript from both ends.
\<close>

definition isWhiteSpace :: "code_unit \<Rightarrow> bool" where
  "isWhiteSpace c \<longleftrightarrow>
     c \<in> set [0x0009, 0x000A, 0x000B, 0x000C, 0x000D, 0x0020, 0x00A0, 0x1680,
               0x2000, 0x2001, 0x2002, 0x2003, 0x2004, 0x2005, 0x2006, 0x2007,
               0x2008, 0x2009, 0x200A, 0x2028, 0x2029, 0x202F, 0x205F, 0x3000, 0xFEFF]"

definition trim :: "jsstring \<Rightarrow> jsstring" where
  "trim s = rev (dropWhile isWhiteSpace (rev (dropWhile isWhiteSpace s)))"

text \<open>Truthiness of an optional string, an optional boolean and a number.\<close>

definition truthy :: "jsstring option \<Rightarrow> bool" where
  "truthy s = (case s of None \<Rightarrow> False | Some x \<Rightarrow> x \<noteq> [])"

definition orFalse :: "bool option \<Rightarrow> bool" where
  "orFalse b = (case b of None \<Rightarrow> False | Some x \<Rightarrow> x)"

text \<open>\<^verbatim>\<open>x || undefined\<close> on an optional string: the empty string becomes \<^verbatim>\<open>undefined\<close>.\<close>

definition orUndefined :: "jsstring option \<Rightarrow> jsstring option" where
  "orUndefined s = (if truthy s then s else None)"

text \<open>\<^verbatim>\<open>s || d\<close> and \<^verbatim>\<open>n || d\<close>.\<close>

definition strOr :: "jsstring option \<Rightarrow> jsstring \<Rightarrow> jsstring" where
  "strOr s d = (case s of None \<Rightarrow> d | Some x \<Rightarrow> if x = [] then d else x)"

definition numOr :: "int \<Rightarrow> int \<Rightarrow> int" where
  "numOr n d = (if n = 0 then d else n)"

definition optNumOr :: "int option \<Rightarrow> int \<Rightarrow> int" where
  "optNumOr n d = (case n of None \<Rightarrow> d | Some x \<Rightarrow> numOr x d)"

text \<open>
  An image-file slot holds \<^verbatim>\<open>undefined\<close>, a \<^verbatim>\<open>File\<close> picked by the user (identified
  by a number), or the empty object that \<^verbatim>\<open>JSON.parse(JSON.stringify(file))\<close> yields.
  Only the second is \<^verbatim>\<open>instanceof File\<close>; the last two are truthy.
\<close>

datatype file_slot = NoFile | FileObj nat | JsonObj

fun instanceofFile :: "file_slot \<Rightarrow> bool" where
  "instanceofFile (FileObj _) = True"
| "instanceofFile _ = False"

fun fileTruthy :: "file_slot \<Rightarrow> bool" where
  "fileTruthy NoFile = False"
| "fileTruthy _ = True"

datatype SurveyType = BASELINE | ENDLINE | OTHER

datatype SurveyQuestionType = TEXT | RADIO | CHECKBOX | GRID

subsection \<open>Form types\<close>

record SurveyGridRowForm =
  gr_id :: "jsstring option"
  rowNumber :: int
  rowText :: jsstring
  rowImage :: "jsstring option"
  rowImageFile :: file_slot

datatype SurveyChoiceForm = SurveyChoiceForm
  (c_clientId: jsstring)
  (choiceOrder: "jsstring option")
  (choiceText: jsstring)
  (choiceImage: "jsstring option")
  (choiceImageFile: file_slot)
  (c_id: "jsstring option")
  (c_hasTextInput: "bool option")
  (hasFollowUp: "bool option")
  (followUpQuestion: "SurveyEntryForm option")
and SurveyEntryForm = SurveyEntryForm
  (clientId: jsstring)
  (question: jsstring)
  (questionNumber: "int option")
  (questionImage: "jsstring option")
  (questionImageFile: file_slot)
  (questionType: SurveyQuestionType)
  (isRequired: bool)
  (choices: "SurveyChoiceForm list")
  (gridRows: "SurveyGridRowForm list")
  (hasTextInput: "bool option")
  (isFollowUp: bool)
  (parentQuestionClientId: "jsstring option")
  (triggerChoiceClientIds: "jsstring list option")
  (parentQuestionId: "jsstring option")
  (triggerChoiceIds: "jsstring list option")
  (e_id: "jsstring option")

record SurveySectionForm =
  title :: jsstring
  description :: "jsstring option"
  sectionNumber :: "int option"
  entries :: "SurveyEntryForm list"
  s_id :: "jsstring option"

subsection \<open>Payload types\<close>

text \<open>
  The entries that \<^verbatim>\<open>flattenEntriesForPayload\<close> emits: \<^verbatim>\<open>SurveyEntryPayload\<close> with the
  picked files kept beside the image URLs.
\<close>

record FlatChoice =
  fc_clientId :: jsstring
  fc_choiceOrder :: jsstring
  fc_choiceText :: jsstring
  fc_choiceImage :: "jsstring option"
  fc_choiceImageFile :: file_slot

record FlatGridRow =
  fr_rowNumber :: int
  fr_rowText :: jsstring
  fr_rowImage :: "jsstring option"
  fr_rowImageFile :: file_slot

record FlatEntry =
  fe_clientId :: jsstring
  fe_question :: jsstring
  fe_questionNumber :: "int option"
  fe_questionImage :: "jsstring option"
  fe_questionImageFile :: file_slot
  fe_questionType :: SurveyQuestionType
  fe_isRequired :: bool
  fe_hasTextInput :: bool
  fe_choices :: "FlatChoice list"
  fe_gridRows :: "FlatGridRow list"
  fe_isFollowUp :: bool
  fe_parentQuestionClientId :: "jsstring option"
  fe_triggerChoiceClientIds :: "jsstring list option"

record SectionPayload =
  sp_title :: jsstring
  sp_description :: "jsstring option"
  sp_sectionNumber :: int
  sp_entries :: "FlatEntry list"

record CreateSurveyPayload =
  csp_name :: jsstring
  csp_type :: SurveyType
  csp_description :: jsstring
  csp_sections :: "SectionPayload list"

section \<open>Helper functions of the form types\<close>

text \<open>
  \<^verbatim>\<open>crypto.randomUUID()\<close> is an input of the model: the fresh identifiers are passed in.
\<close>

definition emptyChoice :: "jsstring \<Rightarrow> nat option \<Rightarrow> SurveyChoiceForm" where
  "emptyChoice uuid order =
     SurveyChoiceForm uuid (map_option (\<lambda>n. fromCharCode (65 + n)) order) [] None NoFile
       None None (Some False) None"

definition emptyEntry :: "jsstring \<Rightarrow> jsstring \<Rightarrow> jsstring \<Rightarrow> int option \<Rightarrow> SurveyEntryForm" where
  "emptyEntry uuid uuidA uuidB qn =
     SurveyEntryForm uuid [] qn None NoFile RADIO True
       [emptyChoice uuidA (Some 0), emptyChoice uuidB (Some 1)] [] (Some False) False
       None None None None None"

text \<open>The template literal \<^verbatim>\<open>`Section ${n}`\<close> needs the decimal digits of \<open>n\<close>.\<close>

fun digits :: "nat \<Rightarrow> nat \<Rightarrow> jsstring" where
  "digits 0 n = []"
| "digits (Suc fuel) n =
     (if n < 10 then [of_nat (48 + n)] else digits fuel (n div 10) @ [of_nat (48 + n mod 10)])"

definition numberToString :: "int \<Rightarrow> jsstring" where
  "numberToString n =
     (if n < 0 then js ''-'' @ digits (Suc (nat (- n))) (nat (- n))
      else digits (Suc (nat n)) (nat n))"

definition emptySection ::
  "jsstring \<Rightarrow> jsstring \<Rightarrow> jsstring \<Rightarrow> int option \<Rightarrow> SurveySectionForm" where
  "emptySection uuid uuidA uuidB sn =
     \<lparr> title = (case sn of None \<Rightarrow> []
                 | Some n \<Rightarrow> if n = 0 then [] else js ''Section '' @ numberToString n),
       description = Some [],
       sectionNumber = sn,
       entries = [emptyEntry uuid uuidA uuidB (Some 1)],
       s_id = None \<rparr>"

subsection \<open>validateSurveyEntry\<close>

record validation =
  isValid :: bool
  errors :: "string list"

definition isEmptyChoice :: "SurveyChoiceForm \<Rightarrow> bool" where
  "isEmptyChoice c \<longleftrightarrow>
     trim (choiceText c) = [] \<and> \<not> truthy (choiceImage c) \<and> \<not> fileTruthy (choiceImageFile c)"

definition noTriggers :: "jsstring list option \<Rightarrow> bool" where
  "noTriggers t = (case t of None \<Rightarrow> True | Some xs \<Rightarrow> xs = [])"

definition entryErrors :: "SurveyEntryForm \<Rightarrow> string list" where
  "entryErrors entry =
     (if trim (question entry) = [] then [''Question text is required''] else []) @
     (if questionType entry = RADIO \<or> questionType entry = CHECKBOX then
        (if length (choices entry) < 2 then [''At least 2 choices are required''] else []) @
        (if filter isEmptyChoice (choices entry) \<noteq> []
         then [''All choices must have text or an image''] else [])
      else []) @
     (if questionType entry = GRID then
        (if length (choices entry) < 2 then [''At least 2 column options are required''] else []) @
        (if length (gridRows entry) < 2 then [''At least 2 row options are required''] else [])
      else []) @
     (if isFollowUp entry then
        (if \<not> truthy (parentQuestionClientId entry) \<and> \<not> truthy (parentQuestionId entry)
         then [''Follow-up question must have a parent question''] else []) @
        (if noTriggers (triggerChoiceClientIds entry) \<and> noTriggers (triggerChoiceIds entry)
         then [''Follow-up question must have at least one trigger choice''] else [])
      else [])"

definition validateSurveyEntry :: "SurveyEntryForm \<Rightarrow> validation" where
  "validateSurveyEntry entry =
     \<lparr> isValid = (entryErrors entry = []), errors = entryErrors entry \<rparr>"

subsection \<open>flattenEntriesForPayload\<close>

definition flatChoices :: "SurveyChoiceForm list \<Rightarrow> FlatChoice list" where
  "flatChoices cs =
     map (\<lambda>(ci, c).
            \<lparr> fc_clientId = c_clientId c,
              fc_choiceOrder = strOr (choiceOrder c) (fromCharCode (65 + ci)),
              fc_choiceText = choiceText c,
              fc_choiceImage = choiceImage c,
              fc_choiceImageFile = choiceImageFile c \<rparr>)
         (enumerate 0 cs)"

definition flatGridRows :: "SurveyGridRowForm list \<Rightarrow> FlatGridRow list" where
  "flatGridRows rs =
     map (\<lambda>(ri, r).
            \<lparr> fr_rowNumber = numOr (rowNumber r) (int ri + 1),
              fr_rowText = rowText r,
              fr_rowImage = rowImage r,
              fr_rowImageFile = rowImageFile r \<rparr>)
         (enumerate 0 rs)"

text \<open>One \<^verbatim>\<open>result.push\<close> for a main question.\<close>

definition mainPayload :: "int \<Rightarrow> SurveyEntryForm \<Rightarrow> FlatEntry" where
  "mainPayload qn entry =
     \<lparr> fe_clientId = clientId entry,
       fe_question = question entry,
       fe_questionNumber = Some qn,
       fe_questionImage = questionImage entry,
       fe_questionImageFile = questionImageFile entry,
       fe_questionType = questionType entry,
       fe_isRequired = isRequired entry,
       fe_hasTextInput = orFalse (hasTextInput entry),
       fe_choices = flatChoices (choices entry),
       fe_gridRows = flatGridRows (gridRows entry),
       fe_isFollowUp = False,
       fe_parentQuestionClientId = None,
       fe_triggerChoiceClientIds = None \<rparr>"

text \<open>One \<^verbatim>\<open>result.push\<close> for the follow-up nested in a choice.\<close>

definition followUpPayload ::
  "int \<Rightarrow> SurveyEntryForm \<Rightarrow> SurveyChoiceForm \<Rightarrow> SurveyEntryForm \<Rightarrow> FlatEntry" where
  "followUpPayload qn entry choice followUp =
     \<lparr> fe_clientId = clientId followUp,
       fe_question = question followUp,
       fe_questionNumber = Some qn,
       fe_questionImage = questionImage followUp,
       fe_questionImageFile = questionImageFile followUp,
       fe_questionType = questionType followUp,
       fe_isRequired = isRequired followUp,
       fe_hasTextInput = orFalse (hasTextInput followUp),
       fe_choices = flatChoices (choices followUp),
       fe_gridRows = flatGridRows (gridRows followUp),
       fe_isFollowUp = True,
       fe_parentQuestionClientId = Some (clientId entry),
       fe_triggerChoiceClientIds = Some [c_clientId choice] \<rparr>"

text \<open>
  The two nested \<^verbatim>\<open>forEach\<close> loops thread the result list and the counter
  \<^verbatim>\<open>questionNumber\<close>, which starts at 1 and is incremented after every push.
\<close>

definition pushFollowUp ::
  "SurveyEntryForm \<Rightarrow> SurveyChoiceForm \<Rightarrow> FlatEntry list \<times> int \<Rightarrow> FlatEntry list \<times> int" where
  "pushFollowUp entry choice acc =
     (case acc of (result, qn) \<Rightarrow>
        (case followUpQuestion choice of
           Some followUp \<Rightarrow>
             if hasFollowUp choice = Some True
             then (result @ [followUpPayload qn entry choice followUp], qn + 1)
             else (result, qn)
         | None \<Rightarrow> (result, qn)))"

definition pushEntry ::
  "SurveyEntryForm \<Rightarrow> FlatEntry list \<times> int \<Rightarrow> FlatEntry list \<times> int" where
  "pushEntry entry acc =
     (case acc of (result, qn) \<Rightarrow>
        fold (pushFollowUp entry) (choices entry) (result @ [mainPayload qn entry], qn + 1))"

definition flattenEntriesForPayload :: "SurveyEntryForm list \<Rightarrow> FlatEntry list" where
  "flattenEntriesForPayload es = fst (fold pushEntry es ([], 1))"

text \<open>A choice carries an active follow-up when the flag is set and the question is present.\<close>

definition activeFollowUp :: "SurveyChoiceForm \<Rightarrow> bool" where
  "activeFollowUp c \<longleftrightarrow> hasFollowUp c = Some True \<and> followUpQuestion c \<noteq> None"

text \<open>The choices of an entry that carry an active follow-up, each with its follow-up.\<close>

definition nestedFollowUps :: "SurveyChoiceForm list \<Rightarrow> (SurveyChoiceForm \<times> SurveyEntryForm) list" where
  "nestedFollowUps cs =
     concat (map (\<lambda>c. case followUpQuestion c of
                         None \<Rightarrow> []
                       | Some fu \<Rightarrow> if hasFollowUp c = Some True then [(c, fu)] else []) cs)"

text \<open>What identifies an emitted entry and its place in the question hierarchy.\<close>

definition linkage :: "FlatEntry \<Rightarrow> jsstring \<times> bool \<times> jsstring option \<times> jsstring list option" where
  "linkage p =
     (fe_clientId p, fe_isFollowUp p, fe_parentQuestionClientId p, fe_triggerChoiceClientIds p)"

section \<open>Loading a survey\<close>

subsection \<open>Response types\<close>

text \<open>In a response, \<^verbatim>\<open>null\<close> and \<^verbatim>\<open>undefined\<close> are both \<open>None\<close>: the code only tests
  such fields for truthiness or compares them with a string.\<close>

record SurveyChoiceResponse =
  rc_id :: jsstring
  rc_choiceOrder :: jsstring
  rc_choiceText :: jsstring
  rc_choiceImageUrl :: "jsstring option"
  rc_hasTextInput :: "bool option"

record SurveyGridRowResponse =
  rr_id :: "jsstring option"
  rr_rowNumber :: int
  rr_rowText :: jsstring
  rr_rowImageUrl :: "jsstring option"

record SurveyEntryResponse =
  re_id :: jsstring
  re_questionNumber :: int
  re_question :: jsstring
  re_questionImageUrl :: "jsstring option"
  re_questionType :: SurveyQuestionType
  re_isRequired :: bool
  re_choices :: "SurveyChoiceResponse list"
  re_gridRows :: "SurveyGridRowResponse list"
  re_hasTextInput :: "bool option"
  re_isFollowUp :: bool
  re_parentQuestionId :: "jsstring option"
  re_triggerChoiceIds :: "jsstring list option"

record SurveySectionResponse =
  rs_id :: jsstring
  rs_title :: jsstring
  rs_description :: "jsstring option"
  rs_sectionNumber :: int
  rs_entries :: "SurveyEntryResponse list"

record SurveyDetailResponse =
  rd_id :: jsstring
  rd_name :: jsstring
  rd_type :: "SurveyType option"
  rd_description :: jsstring
  rd_sections :: "SurveySectionResponse list"

subsection \<open>transformResponseToForm\<close>

definition gridRowToForm :: "SurveyGridRowResponse \<Rightarrow> SurveyGridRowForm" where
  "gridRowToForm r =
     \<lparr> gr_id = rr_id r, rowNumber = rr_rowNumber r, rowText = rr_rowText r,
       rowImage = orUndefined (rr_rowImageUrl r), rowImageFile = NoFile \<rparr>"

text \<open>A choice of a nested follow-up: it never carries a follow-up of its own.\<close>

definition followUpChoiceToForm :: "SurveyChoiceResponse \<Rightarrow> SurveyChoiceForm" where
  "followUpChoiceToForm fc =
     SurveyChoiceForm (rc_id fc) (Some (rc_choiceOrder fc)) (rc_choiceText fc)
       (orUndefined (rc_choiceImageUrl fc)) NoFile (Some (rc_id fc))
       (Some (orFalse (rc_hasTextInput fc))) (Some False) None"

definition followUpToForm ::
  "SurveyEntryResponse \<Rightarrow> SurveyChoiceResponse \<Rightarrow> SurveyEntryResponse \<Rightarrow> SurveyEntryForm" where
  "followUpToForm entry choice followUp =
     SurveyEntryForm (re_id followUp) (re_question followUp) (Some (re_questionNumber followUp))
       (orUndefined (re_questionImageUrl followUp)) NoFile (re_questionType followUp)
       (re_isRequired followUp)
       (map followUpChoiceToForm (re_choices followUp))
       (map gridRowToForm (re_gridRows followUp))
       (Some (orFalse (re_hasTextInput followUp))) True
       (Some (re_id entry)) (Some [rc_id choice])
       (orUndefined (re_parentQuestionId followUp)) (re_triggerChoiceIds followUp)
       (Some (re_id followUp))"

text \<open>The filter predicate of \<^verbatim>\<open>relevantFollowUps\<close>.\<close>

definition triggeredBy ::
  "SurveyEntryResponse \<Rightarrow> SurveyChoiceResponse \<Rightarrow> SurveyEntryResponse \<Rightarrow> bool" where
  "triggeredBy entry choice fu \<longleftrightarrow>
     re_parentQuestionId fu = Some (re_id entry) \<and>
     (case re_triggerChoiceIds fu of None \<Rightarrow> False | Some ts \<Rightarrow> rc_id choice \<in> set ts)"

definition relevantFollowUps ::
  "SurveyEntryResponse list \<Rightarrow> SurveyEntryResponse \<Rightarrow> SurveyChoiceResponse \<Rightarrow>
   SurveyEntryResponse list" where
  "relevantFollowUps followUpEntries entry choice =
     filter (triggeredBy entry choice) followUpEntries"

definition choiceToForm ::
  "SurveyEntryResponse list \<Rightarrow> SurveyEntryResponse \<Rightarrow> SurveyChoiceResponse \<Rightarrow>
   SurveyChoiceForm" where
  "choiceToForm followUpEntries entry choice =
     SurveyChoiceForm (rc_id choice) (Some (rc_choiceOrder choice)) (rc_choiceText choice)
       (orUndefined (rc_choiceImageUrl choice)) NoFile (Some (rc_id choice))
       (Some (orFalse (rc_hasTextInput choice)))
       (Some (relevantFollowUps followUpEntries entry choice \<noteq> []))
       (case relevantFollowUps followUpEntries entry choice of
          [] \<Rightarrow> None
        | followUp # _ \<Rightarrow> Some (followUpToForm entry choice followUp))"

definition entryToForm ::
  "SurveyEntryResponse list \<Rightarrow> SurveyEntryResponse \<Rightarrow> SurveyEntryForm" where
  "entryToForm followUpEntries entry =
     SurveyEntryForm (re_id entry) (re_question entry) (Some (re_questionNumber entry))
       (orUndefined (re_questionImageUrl entry)) NoFile (re_questionType entry)
       (re_isRequired entry)
       (map (choiceToForm followUpEntries entry) (re_choices entry))
       (map gridRowToForm (re_gridRows entry))
       (Some (orFalse (re_hasTextInput entry))) False
       None None None None
       (Some (re_id entry))"

definition sectionToForm :: "SurveySectionResponse \<Rightarrow> SurveySectionForm" where
  "sectionToForm section =
     (let mainEntries = filter (\<lambda>e. \<not> re_isFollowUp e) (rs_entries section);
          followUpEntries = filter re_isFollowUp (rs_entries section)
      in \<lparr> title = rs_title section,
           description = orUndefined (rs_description section),
           sectionNumber = Some (rs_sectionNumber section),
           entries = map (entryToForm followUpEntries) mainEntries,
           s_id = Some (rs_id section) \<rparr>)"

definition transformResponseToForm :: "SurveyDetailResponse \<Rightarrow> SurveySectionForm list" where
  "transformResponseToForm response = map sectionToForm (rd_sections response)"

text \<open>The follow-up questions nested in a rebuilt tree, by their server ids.\<close>

definition nestedFollowUpIds :: "SurveySectionForm list \<Rightarrow> jsstring option list" where
  "nestedFollowUpIds secs =
     concat (map (\<lambda>s. concat (map (\<lambda>e. concat (map (\<lambda>c.
        (case followUpQuestion c of None \<Rightarrow> [] | Some fu \<Rightarrow> [e_id fu]))
        (choices e))) (entries s))) secs)"

section \<open>The editor state\<close>

datatype edit_mode = SurveyMode | QuestionMode

datatype focus_action = AddQuestion | AddSection | EditQuestions

record focus_section =
  fs_sectionId :: "jsstring option"
  fs_action :: focus_action

record form_state =
  editingSurveyId :: "jsstring option"
  surveyName :: jsstring
  surveyType :: SurveyType
  surveyDescription :: jsstring
  sections :: "SurveySectionForm list"
  sectionsLoaded :: bool
  originalSectionsCount :: nat
  originalQuestionCounts :: "nat list"
  originalSectionsSnapshot :: "SurveySectionForm list"
  selectedSection :: nat
  selectedQuestion :: nat
  editMode :: edit_mode

definition isEditMode :: "form_state \<Rightarrow> bool" where
  "isEditMode st = truthy (editingSurveyId st)"

definition getNextQuestionNumber :: "SurveySectionForm list \<Rightarrow> int" where
  "getNextQuestionNumber secs =
     int (sum_list (map (\<lambda>section.
            length (entries section) +
            sum_list (map (\<lambda>entry. length (filter activeFollowUp (choices entry)))
                          (entries section)))
          secs)) + 1"

subsection \<open>The snapshot copy\<close>

text \<open>
  \<^verbatim>\<open>JSON.parse(JSON.stringify(x))\<close> on a tree of strings, booleans, integers, arrays and
  optional fields gives an equal tree, except that a \<^verbatim>\<open>File\<close> comes back as an empty
  object.
\<close>

fun jsonFile :: "file_slot \<Rightarrow> file_slot" where
  "jsonFile NoFile = NoFile"
| "jsonFile (FileObj _) = JsonObj"
| "jsonFile JsonObj = JsonObj"

definition jsonGridRow :: "SurveyGridRowForm \<Rightarrow> SurveyGridRowForm" where
  "jsonGridRow r = r\<lparr> rowImageFile := jsonFile (rowImageFile r) \<rparr>"

fun jsonChoice :: "SurveyChoiceForm \<Rightarrow> SurveyChoiceForm"
and jsonEntry :: "SurveyEntryForm \<Rightarrow> SurveyEntryForm" where
  "jsonChoice (SurveyChoiceForm cid ord txt img file sid hti hfu fu) =
     SurveyChoiceForm cid ord txt img (jsonFile file) sid hti hfu (map_option jsonEntry fu)"
| "jsonEntry (SurveyEntryForm cid q qn img file ty req cs rs hti isfu pcid tcids pid tids sid) =
     SurveyEntryForm cid q qn img (jsonFile file) ty req (map jsonChoice cs) (map jsonGridRow rs)
       hti isfu pcid tcids pid tids sid"

definition jsonSection :: "SurveySectionForm \<Rightarrow> SurveySectionForm" where
  "jsonSection s = s\<lparr> entries := map jsonEntry (entries s) \<rparr>"

subsection \<open>The load effect\<close>

fun findIndexFrom :: "nat \<Rightarrow> ('a \<Rightarrow> bool) \<Rightarrow> 'a list \<Rightarrow> nat option" where
  "findIndexFrom i P [] = None"
| "findIndexFrom i P (x # xs) = (if P x then Some i else findIndexFrom (Suc i) P xs)"

definition findIndex :: "('a \<Rightarrow> bool) \<Rightarrow> 'a list \<Rightarrow> nat option" where
  "findIndex P xs = findIndexFrom 0 P xs"

text \<open>
  The effect that runs when the survey detail arrives. \<open>uuid\<close> supplies the identifiers
  that \<^verbatim>\<open>crypto.randomUUID()\<close> would draw, in call order. \<^verbatim>\<open>getNextQuestionNumber\<close>
  reads the sections of the render in which the effect runs, that is, those of \<open>st\<close>.
\<close>

definition loadSurvey ::
  "(nat \<Rightarrow> jsstring) \<Rightarrow> focus_section option \<Rightarrow> SurveySectionForm list \<Rightarrow> form_state \<Rightarrow>
   form_state" where
  "loadSurvey uuid focusSection loadedSections st =
     (if isEditMode st \<and> \<not> sectionsLoaded st then
        (let st1 = st\<lparr> originalSectionsCount := length loadedSections,
                       originalQuestionCounts := map (\<lambda>s. length (entries s)) loadedSections,
                       originalSectionsSnapshot := map jsonSection loadedSections \<rparr>;
             st2 =
               (case focusSection of
                  None \<Rightarrow> st1\<lparr> sections := loadedSections \<rparr>
                | Some f \<Rightarrow>
                    if fs_action f = AddQuestion \<and> truthy (fs_sectionId f) then
                      (case findIndex (\<lambda>s. s_id s = fs_sectionId f) loadedSections of
                         None \<Rightarrow> st1\<lparr> sections := loadedSections \<rparr>
                       | Some i \<Rightarrow>
                           st1\<lparr> sections := loadedSections
                                  [i := (loadedSections ! i)
                                     \<lparr> entries := entries (loadedSections ! i) @
                                         [emptyEntry (uuid 0) (uuid 1) (uuid 2)
                                            (Some (getNextQuestionNumber (sections st)))] \<rparr>],
                                selectedSection := i,
                                selectedQuestion := length (entries (loadedSections ! i)),
                                editMode := QuestionMode \<rparr>)
                    else if fs_action f = EditQuestions \<and> truthy (fs_sectionId f) then
                      (case findIndex (\<lambda>s. s_id s = fs_sectionId f) loadedSections of
                         None \<Rightarrow> st1\<lparr> sections := loadedSections \<rparr>
                       | Some i \<Rightarrow>
                           if entries (loadedSections ! i) \<noteq> []
                           then st1\<lparr> sections := loadedSections, selectedSection := i,
                                     selectedQuestion := 0, editMode := QuestionMode \<rparr>
                           else st1\<lparr> sections := loadedSections \<rparr>)
                    else if fs_action f = AddSection then
                      st1\<lparr> sections := loadedSections @
                             [(emptySection (uuid 0) (uuid 1) (uuid 2)
                                 (Some (int (length loadedSections) + 1)))
                                \<lparr> entries := [emptyEntry (uuid 3) (uuid 4) (uuid 5)
                                                (Some (getNextQuestionNumber (sections st)))] \<rparr>],
                           selectedSection := length loadedSections,
                           selectedQuestion := 0,
                           editMode := QuestionMode \<rparr>
                    else st1\<lparr> sections := loadedSections \<rparr>)
         in st2\<lparr> sectionsLoaded := True \<rparr>)
      else st)"

section \<open>API operations\<close>

text \<open>
  Each call of a mutation hook is one operation; its argument is kept as the code builds
  it. The network is outside the model: whether a call succeeds is an input.
\<close>

record UpdateSectionData =
  usd_title :: jsstring
  usd_description :: "jsstring option"
  usd_sectionNumber :: int

record UpdateEntryData =
  ued_question :: jsstring
  ued_questionNumber :: "int option"
  ued_questionType :: SurveyQuestionType
  ued_isRequired :: bool
  ued_questionImageFile :: file_slot

record ChoiceData =
  cd_clientId :: jsstring
  cd_choiceOrder :: jsstring
  cd_choiceText :: jsstring
  cd_choiceImageFile :: file_slot
  cd_hasTextInput :: bool

record GridRowData =
  rd_rowNumber :: int
  rd_rowText :: jsstring
  rd_rowImageFile :: file_slot

record EntryData =
  ed_clientId :: jsstring
  ed_question :: jsstring
  ed_questionNumber :: "int option"
  ed_questionType :: SurveyQuestionType
  ed_isRequired :: bool
  ed_isFollowUp :: bool
  ed_parentQuestionClientId :: "jsstring option"
  ed_triggerChoiceClientIds :: "jsstring list option"
  ed_parentQuestionId :: "jsstring option"
  ed_triggerChoiceIds :: "jsstring list option"
  ed_questionImageFile :: file_slot
  ed_choices :: "ChoiceData list"
  ed_gridRows :: "GridRowData list"

datatype operation =
    CreateSurvey CreateSurveyPayload
  | UpdateSection jsstring UpdateSectionData
  | UpdateSurveyEntry jsstring UpdateEntryData
  | UpdateChoice jsstring ChoiceData
  | UpdateGridRow jsstring GridRowData
  | AddSectionsBulk "SectionPayload list"
  | AddEntry "jsstring option" EntryData
  | AddChoice jsstring ChoiceData
  | AddGridRow jsstring GridRowData
  | DeleteChoice jsstring
  | DeleteGridRow jsstring

fun isAddSectionsBulk :: "operation \<Rightarrow> bool" where
  "isAddSectionsBulk (AddSectionsBulk _) = True"
| "isAddSectionsBulk _ = False"

fun isAddEntry :: "operation \<Rightarrow> bool" where
  "isAddEntry (AddEntry _ _) = True"
| "isAddEntry _ = False"

fun isAddGridRow :: "operation \<Rightarrow> bool" where
  "isAddGridRow (AddGridRow _ _) = True"
| "isAddGridRow _ = False"

fun isUpdateSurveyEntry :: "operation \<Rightarrow> bool" where
  "isUpdateSurveyEntry (UpdateSurveyEntry _ _) = True"
| "isUpdateSurveyEntry _ = False"

fun isDeleteChoice :: "operation \<Rightarrow> bool" where
  "isDeleteChoice (DeleteChoice _) = True"
| "isDeleteChoice _ = False"

text \<open>The operations that create a node on the server.\<close>

fun isCreate :: "operation \<Rightarrow> bool" where
  "isCreate (CreateSurvey _) = True"
| "isCreate (AddSectionsBulk _) = True"
| "isCreate (AddEntry _ _) = True"
| "isCreate (AddChoice _ _) = True"
| "isCreate (AddGridRow _ _) = True"
| "isCreate _ = False"

definition choiceData :: "nat \<Rightarrow> SurveyChoiceForm \<Rightarrow> ChoiceData" where
  "choiceData ci c =
     \<lparr> cd_clientId = c_clientId c,
       cd_choiceOrder = strOr (choiceOrder c) (fromCharCode (65 + ci)),
       cd_choiceText = choiceText c,
       cd_choiceImageFile = choiceImageFile c,
       cd_hasTextInput = orFalse (c_hasTextInput c) \<rparr>"

definition gridRowData :: "nat \<Rightarrow> SurveyGridRowForm \<Rightarrow> GridRowData" where
  "gridRowData ri r =
     \<lparr> rd_rowNumber = numOr (rowNumber r) (int ri + 1),
       rd_rowText = rowText r,
       rd_rowImageFile = rowImageFile r \<rparr>"

definition updateEntryData :: "SurveyEntryForm \<Rightarrow> UpdateEntryData" where
  "updateEntryData e =
     \<lparr> ued_question = question e,
       ued_questionNumber = questionNumber e,
       ued_questionType = questionType e,
       ued_isRequired = isRequired e,
       ued_questionImageFile = questionImageFile e \<rparr>"

section \<open>Toasts\<close>

text \<open>
  A message is the template it is built from together with the interpolated values.
\<close>

datatype message =
    SurveyNameRequired
  | AtLeastOneSection
  | SectionTitleRequired nat
  | SectionNeedsQuestion jsstring
  | QuestionInvalid jsstring nat string
  | FollowUpInvalid jsstring string
  | EntryInvalid string
  | CannotSaveQuestion
  | QuestionSaved
  | FailedToSaveQuestion
  | NoChangesToSave
  | AllChangesSaved nat
  | PartlySaved nat nat
  | FailedToSave nat

datatype toast =
    ToastError message
  | ToastSuccess message
  | ToastWarning message
  | ToastInfo message
  | ToastMessage message

text \<open>The entry-level validation errors that a toast shows.\<close>

fun surfacedErrors :: "toast option \<Rightarrow> string list" where
  "surfacedErrors (Some (ToastError (QuestionInvalid _ _ e))) = [e]"
| "surfacedErrors (Some (ToastError (FollowUpInvalid _ e))) = [e]"
| "surfacedErrors (Some (ToastError (EntryInvalid e))) = [e]"
| "surfacedErrors _ = []"

section \<open>Form validation\<close>

text \<open>\<^verbatim>\<open>validation.errors[0]\<close>, as it is printed in a template.\<close>

definition firstError :: "validation \<Rightarrow> string" where
  "firstError v = (case errors v of [] \<Rightarrow> ''undefined'' | e # _ \<Rightarrow> e)"

text \<open>
  \<^verbatim>\<open>validateForm\<close> returns at the first failure, after one \<^verbatim>\<open>toast.error\<close>. The model
  returns the message of that toast, and \<open>None\<close> where the code returns \<^verbatim>\<open>true\<close>.
\<close>

fun validateFollowUps :: "SurveyChoiceForm list \<Rightarrow> message option" where
  "validateFollowUps [] = None"
| "validateFollowUps (choice # rest) =
     (case followUpQuestion choice of
        Some followUp \<Rightarrow>
          if hasFollowUp choice = Some True \<and> \<not> isValid (validateSurveyEntry followUp)
          then Some (FollowUpInvalid (choiceText choice)
                       (firstError (validateSurveyEntry followUp)))
          else validateFollowUps rest
      | None \<Rightarrow> validateFollowUps rest)"

fun validateQuestions :: "jsstring \<Rightarrow> nat \<Rightarrow> SurveyEntryForm list \<Rightarrow> message option" where
  "validateQuestions ttl questionIndex [] = None"
| "validateQuestions ttl questionIndex (q # rest) =
     (if \<not> isValid (validateSurveyEntry q)
      then Some (QuestionInvalid ttl (questionIndex + 1) (firstError (validateSurveyEntry q)))
      else (case validateFollowUps (choices q) of
              Some m \<Rightarrow> Some m
            | None \<Rightarrow> validateQuestions ttl (Suc questionIndex) rest))"

fun validateSections :: "nat \<Rightarrow> SurveySectionForm list \<Rightarrow> message option" where
  "validateSections sectionIndex [] = None"
| "validateSections sectionIndex (section # rest) =
     (if trim (title section) = [] then Some (SectionTitleRequired (sectionIndex + 1))
      else if entries section = [] then Some (SectionNeedsQuestion (title section))
      else (case validateQuestions (title section) 0 (entries section) of
              Some m \<Rightarrow> Some m
            | None \<Rightarrow> validateSections (Suc sectionIndex) rest))"

definition validateForm :: "form_state \<Rightarrow> message option" where
  "validateForm st =
     (if trim (surveyName st) = [] then Some SurveyNameRequired
      else if sections st = [] then Some AtLeastOneSection
      else validateSections 0 (sections st))"

section \<open>Change detection\<close>

definition hasEntryChanged :: "SurveyEntryForm \<Rightarrow> SurveyEntryForm \<Rightarrow> bool" where
  "hasEntryChanged current original =
     (if question current \<noteq> question original then True
      else if questionType current \<noteq> questionType original then True
      else if isRequired current \<noteq> isRequired original then True
      else if hasTextInput current \<noteq> hasTextInput original then True
      else if instanceofFile (questionImageFile current) then True
      else if questionImage current \<noteq> questionImage original then True
      else False)"

definition hasChoiceChanged :: "SurveyChoiceForm \<Rightarrow> SurveyChoiceForm \<Rightarrow> bool" where
  "hasChoiceChanged current original =
     (if choiceText current \<noteq> choiceText original then True
      else if choiceOrder current \<noteq> choiceOrder original then True
      else if c_hasTextInput current \<noteq> c_hasTextInput original then True
      else if instanceofFile (choiceImageFile current) then True
      else if choiceImage current \<noteq> choiceImage original then True
      else False)"

definition hasGridRowChanged :: "SurveyGridRowForm \<Rightarrow> SurveyGridRowForm \<Rightarrow> bool" where
  "hasGridRowChanged current original =
     (if rowText current \<noteq> rowText original then True
      else if rowNumber current \<noteq> rowNumber original then True
      else if instanceofFile (rowImageFile current) then True
      else if rowImage current \<noteq> rowImage original then True
      else False)"

definition hasSectionChanged :: "SurveySectionForm \<Rightarrow> SurveySectionForm \<Rightarrow> bool" where
  "hasSectionChanged current original \<longleftrightarrow>
     title current \<noteq> title original \<or> description current \<noteq> description original"

section \<open>Saving the whole form: handleSubmit\<close>

text \<open>Step 1: section title and description changes, by position.\<close>

definition sectionUpdateOps ::
  "SurveySectionForm list \<Rightarrow> SurveySectionForm list \<Rightarrow> operation list" where
  "sectionUpdateOps cur orig =
     concat (map (\<lambda>(si, current, original).
        (case s_id current of
           None \<Rightarrow> []
         | Some sid \<Rightarrow>
             if sid \<noteq> [] \<and> hasSectionChanged current original
             then [UpdateSection sid
                     \<lparr> usd_title = title current,
                       usd_description = description current,
                       usd_sectionNumber = optNumOr (sectionNumber current) (int si + 1) \<rparr>]
             else []))
       (enumerate 0 (zip cur orig)))"

text \<open>Step 3: changed choices of one entry, by position; choices without a server id are skipped.\<close>

definition choiceUpdateOps ::
  "SurveyChoiceForm list \<Rightarrow> SurveyChoiceForm list \<Rightarrow> operation list" where
  "choiceUpdateOps cur orig =
     concat (map (\<lambda>(ci, currentChoice, originalChoice).
        (case c_id currentChoice of
           None \<Rightarrow> []
         | Some chid \<Rightarrow>
             if chid \<noteq> [] \<and> hasChoiceChanged currentChoice originalChoice
             then [UpdateChoice chid (choiceData ci currentChoice)]
             else []))
       (enumerate 0 (zip cur orig)))"

text \<open>Step 4: changed grid rows of one entry, by position.\<close>

definition gridRowUpdateOps ::
  "SurveyGridRowForm list \<Rightarrow> SurveyGridRowForm list \<Rightarrow> operation list" where
  "gridRowUpdateOps cur orig =
     concat (map (\<lambda>(ri, currentRow, originalRow).
        (case gr_id currentRow of
           None \<Rightarrow> []
         | Some rid \<Rightarrow>
             if rid \<noteq> [] \<and> hasGridRowChanged currentRow originalRow
             then [UpdateGridRow rid (gridRowData ri currentRow)]
             else []))
       (enumerate 0 (zip cur orig)))"

text \<open>Steps 2 to 4 for one entry and the entry at the same position of the snapshot.\<close>

definition entryChangeOps :: "SurveyEntryForm \<Rightarrow> SurveyEntryForm \<Rightarrow> operation list" where
  "entryChangeOps currentEntry originalEntry =
     (case e_id currentEntry of
        None \<Rightarrow> []
      | Some eid \<Rightarrow>
          if eid = [] then []
          else
            (if hasEntryChanged currentEntry originalEntry
             then [UpdateSurveyEntry eid (updateEntryData currentEntry)] else []) @
            choiceUpdateOps (choices currentEntry) (choices originalEntry) @
            (if questionType currentEntry = GRID
             then gridRowUpdateOps (gridRows currentEntry) (gridRows originalEntry) else []))"

definition entryUpdateOps ::
  "SurveySectionForm list \<Rightarrow> SurveySectionForm list \<Rightarrow> operation list" where
  "entryUpdateOps cur orig =
     concat (map (\<lambda>(currentSection, originalSection).
        concat (map (\<lambda>(currentEntry, originalEntry). entryChangeOps currentEntry originalEntry)
                    (zip (entries currentSection) (entries originalSection))))
       (zip cur orig))"

text \<open>Step 5: the sections beyond the original count go into one bulk call.\<close>

definition bulkPayload :: "nat \<Rightarrow> SurveySectionForm list \<Rightarrow> SectionPayload list" where
  "bulkPayload cnt newSectionsData =
     map (\<lambda>(idx, section).
            \<lparr> sp_title = title section,
              sp_description = description section,
              sp_sectionNumber = int cnt + int idx + 1,
              sp_entries = flattenEntriesForPayload (entries section) \<rparr>)
         (enumerate 0 newSectionsData)"

definition newSectionOps :: "nat \<Rightarrow> SurveySectionForm list \<Rightarrow> operation list" where
  "newSectionOps cnt secs =
     (if drop cnt secs \<noteq> [] then [AddSectionsBulk (bulkPayload cnt (drop cnt secs))] else [])"

text \<open>Step 6: the entries beyond the original question count of an original section.\<close>

definition newEntryData :: "SurveyEntryForm \<Rightarrow> EntryData" where
  "newEntryData entry =
     \<lparr> ed_clientId = clientId entry,
       ed_question = question entry,
       ed_questionNumber = questionNumber entry,
       ed_questionType = questionType entry,
       ed_isRequired = isRequired entry,
       ed_isFollowUp = isFollowUp entry,
       ed_parentQuestionClientId = parentQuestionClientId entry,
       ed_triggerChoiceClientIds = triggerChoiceClientIds entry,
       ed_parentQuestionId = None,
       ed_triggerChoiceIds = None,
       ed_questionImageFile = questionImageFile entry,
       ed_choices = map (\<lambda>(ci, c). choiceData ci c) (enumerate 0 (choices entry)),
       ed_gridRows = map (\<lambda>(ri, r). gridRowData ri r) (enumerate 0 (gridRows entry)) \<rparr>"

definition originalQCount :: "nat list \<Rightarrow> nat \<Rightarrow> nat" where
  "originalQCount counts i = (if i < length counts then counts ! i else 0)"

definition newEntryOps :: "nat \<Rightarrow> nat list \<Rightarrow> SurveySectionForm list \<Rightarrow> operation list" where
  "newEntryOps cnt counts secs =
     concat (map (\<lambda>(i, current).
        if length (entries current) > originalQCount counts i \<and> truthy (s_id current)
        then map (\<lambda>entry. AddEntry (s_id current) (newEntryData entry))
                 (drop (originalQCount counts i) (entries current))
        else [])
       (enumerate 0 (take cnt secs)))"

text \<open>All operations of an edit-mode save, in the order in which they are issued.\<close>

definition editModeOperations :: "form_state \<Rightarrow> operation list" where
  "editModeOperations st =
     sectionUpdateOps (sections st) (originalSectionsSnapshot st) @
     entryUpdateOps (sections st) (originalSectionsSnapshot st) @
     newSectionOps (originalSectionsCount st) (sections st) @
     newEntryOps (originalSectionsCount st) (originalQuestionCounts st) (sections st)"

text \<open>
  \<^verbatim>\<open>totalChanges\<close>, \<^verbatim>\<open>successCount\<close> and \<^verbatim>\<open>failureCount\<close> count one per operation,
  except that the bulk call counts once per new section.
\<close>

fun changeCount :: "operation \<Rightarrow> nat" where
  "changeCount (AddSectionsBulk newSectionsData) = length newSectionsData"
| "changeCount _ = 1"

definition countWhere :: "(nat \<Rightarrow> bool) \<Rightarrow> operation list \<Rightarrow> nat" where
  "countWhere P ops =
     sum_list (map (\<lambda>(i, op). if P i then changeCount op else 0) (enumerate 0 ops))"

definition createPayload :: "form_state \<Rightarrow> CreateSurveyPayload" where
  "createPayload st =
     \<lparr> csp_name = surveyName st,
       csp_type = surveyType st,
       csp_description = surveyDescription st,
       csp_sections =
         map (\<lambda>(sIndex, section).
                \<lparr> sp_title = title section,
                  sp_description = description section,
                  sp_sectionNumber = int sIndex + 1,
                  sp_entries = flattenEntriesForPayload (entries section) \<rparr>)
             (enumerate 0 (sections st)) \<rparr>"

text \<open>
  The section, entry, choice and grid-row updates, the bulk call and the creation of a
  survey are issued with \<^verbatim>\<open>mutate\<close> and per-call \<^verbatim>\<open>onSuccess\<close>/\<^verbatim>\<open>onError\<close>
  callbacks, each through the one mutation observer of its hook; the promise that
  \<^verbatim>\<open>handleSubmit\<close> wraps around the call resolves only in these callbacks. A later
  \<^verbatim>\<open>mutate\<close> on the same hook replaces the per-call callbacks and detaches the observer
  from the earlier mutation: the earlier call is still sent, but its callbacks never
  run. \<^verbatim>\<open>addEntryAsync\<close> is \<^verbatim>\<open>mutateAsync\<close> inside \<^verbatim>\<open>try\<close>/\<^verbatim>\<open>catch\<close> and always reports.
\<close>

datatype hook = CreateHook | SectionHook | EntryHook | ChoiceHook | GridRowHook | BulkHook

fun submitHook :: "operation \<Rightarrow> hook option" where
  "submitHook (CreateSurvey _) = Some CreateHook"
| "submitHook (UpdateSection _ _) = Some SectionHook"
| "submitHook (UpdateSurveyEntry _ _) = Some EntryHook"
| "submitHook (UpdateChoice _ _) = Some ChoiceHook"
| "submitHook (UpdateGridRow _ _) = Some GridRowHook"
| "submitHook (AddSectionsBulk _) = Some BulkHook"
| "submitHook _ = None"

definition supersededBy :: "operation \<Rightarrow> operation \<Rightarrow> bool" where
  "supersededBy a b = (case submitHook a of None \<Rightarrow> False | Some h \<Rightarrow> submitHook b = Some h)"

text \<open>The \<open>i\<close>-th call of a run reports back when no later call of the run goes through
  the same hook.\<close>

definition reportsBack :: "operation list \<Rightarrow> nat \<Rightarrow> bool" where
  "reportsBack ops i \<longleftrightarrow>
     i < length ops \<and> \<not> list_ex (supersededBy (ops ! i)) (drop (Suc i) ops)"

text \<open>\<^verbatim>\<open>await Promise.all(pendingPromises)\<close> returns when every call has reported back.\<close>

definition settles :: "operation list \<Rightarrow> bool" where
  "settles ops = list_all (reportsBack ops) [0..<length ops]"

record submit_result =
  operations :: "operation list"
  settled :: bool
  toast :: "toast option"
  totalChanges :: nat
  successCount :: nat
  failureCount :: nat
  refreshed :: bool
  cancelled :: bool
  newState :: form_state

text \<open>
  \<open>ok i\<close> tells whether the \<open>i\<close>-th operation issued by this run succeeds on the server.
  \<open>operations\<close> are the calls issued, all before the \<^verbatim>\<open>await\<close>; \<open>settled\<close> tells
  whether the run gets past the \<^verbatim>\<open>await\<close> and so reaches its report. The counters
  are the values the variables end up with: they count the calls that reported back.
  A run that does not settle shows no toast and sets no state. The toasts of the
  mutation hooks themselves are not part of the result.
\<close>

definition handleSubmit :: "(nat \<Rightarrow> bool) \<Rightarrow> form_state \<Rightarrow> submit_result" where
  "handleSubmit ok st =
     (case validateForm st of
        Some m \<Rightarrow>
          \<lparr> operations = [], settled = True, toast = Some (ToastError m), totalChanges = 0,
            successCount = 0, failureCount = 0, refreshed = False, cancelled = False,
            newState = st \<rparr>
      | None \<Rightarrow>
          if \<not> isEditMode st then
            \<lparr> operations = [CreateSurvey (createPayload st)], settled = True, toast = None,
              totalChanges = 0, successCount = 0, failureCount = 0, refreshed = False,
              cancelled = ok 0, newState = st \<rparr>
          else
            (let ops = editModeOperations st;
                 total = sum_list (map changeCount ops);
                 succ = countWhere (\<lambda>i. reportsBack ops i \<and> ok i) ops;
                 fail = countWhere (\<lambda>i. reportsBack ops i \<and> \<not> ok i) ops
             in if \<not> settles ops then
                  \<lparr> operations = ops, settled = False, toast = None,
                    totalChanges = total, successCount = succ, failureCount = fail,
                    refreshed = False, cancelled = False, newState = st \<rparr>
                else if total = 0 then
                  \<lparr> operations = ops, settled = True,
                    toast = Some (ToastMessage NoChangesToSave),
                    totalChanges = total, successCount = succ, failureCount = fail,
                    refreshed = False, cancelled = False, newState = st \<rparr>
                else if fail = 0 then
                  \<lparr> operations = ops, settled = True,
                    toast = Some (ToastSuccess (AllChangesSaved succ)),
                    totalChanges = total, successCount = succ, failureCount = fail,
                    refreshed = True, cancelled = False,
                    newState = st\<lparr> originalSectionsSnapshot := map jsonSection (sections st),
                                    originalSectionsCount := length (sections st),
                                    originalQuestionCounts :=
                                      map (\<lambda>s. length (entries s)) (sections st) \<rparr> \<rparr>
                else if succ > 0 then
                  \<lparr> operations = ops, settled = True,
                    toast = Some (ToastWarning (PartlySaved succ fail)),
                    totalChanges = total, successCount = succ, failureCount = fail,
                    refreshed = True, cancelled = False, newState = st \<rparr>
                else
                  \<lparr> operations = ops, settled = True,
                    toast = Some (ToastError (FailedToSave fail)),
                    totalChanges = total, successCount = succ, failureCount = fail,
                    refreshed = False, cancelled = False, newState = st \<rparr>))"

text \<open>
  An existing node that still carries a picked file: the detectors report it as changed
  whatever the snapshot holds.
\<close>

definition entryHasPendingFile :: "SurveyEntryForm \<Rightarrow> bool" where
  "entryHasPendingFile e \<longleftrightarrow>
     truthy (e_id e) \<and>
     (instanceofFile (questionImageFile e) \<or>
      list_ex (\<lambda>c. truthy (c_id c) \<and> instanceofFile (choiceImageFile c)) (choices e) \<or>
      (questionType e = GRID \<and>
       list_ex (\<lambda>r. truthy (gr_id r) \<and> instanceofFile (rowImageFile r)) (gridRows e)))"

definition hasPendingFiles :: "SurveySectionForm list \<Rightarrow> bool" where
  "hasPendingFiles secs = list_ex (\<lambda>s. list_ex entryHasPendingFile (entries s)) secs"

text \<open>An entry of the working tree that \<^verbatim>\<open>validateForm\<close> checks and that is not valid.\<close>

definition hasInvalidEntry :: "SurveySectionForm list \<Rightarrow> bool" where
  "hasInvalidEntry secs =
     list_ex (\<lambda>s. list_ex (\<lambda>e.
        \<not> isValid (validateSurveyEntry e) \<or>
        list_ex (\<lambda>c. case followUpQuestion c of
                        None \<Rightarrow> False
                      | Some fu \<Rightarrow> hasFollowUp c = Some True \<and> \<not> isValid (validateSurveyEntry fu))
                (choices e))
        (entries s)) secs"

section \<open>Saving one question: handleSaveCurrentQuestion\<close>

definition nthOpt :: "'a list \<Rightarrow> nat \<Rightarrow> 'a option" where
  "nthOpt xs i = (if i < length xs then Some (xs ! i) else None)"

text \<open>\<^verbatim>\<open>secs[i]?.entries[j]\<close>\<close>

definition entryAt :: "SurveySectionForm list \<Rightarrow> nat \<Rightarrow> nat \<Rightarrow> SurveyEntryForm option" where
  "entryAt secs i j = (case nthOpt secs i of None \<Rightarrow> None | Some s \<Rightarrow> nthOpt (entries s) j)"

text \<open>1. The entry itself, when the snapshot has an entry at this position.\<close>

definition entrySaveOps ::
  "jsstring \<Rightarrow> SurveyEntryForm \<Rightarrow> SurveyEntryForm option \<Rightarrow> operation list" where
  "entrySaveOps eid currentEntry originalEntry =
     (case originalEntry of
        None \<Rightarrow> []
      | Some original \<Rightarrow>
          if hasEntryChanged currentEntry original
          then [UpdateSurveyEntry eid (updateEntryData currentEntry)] else [])"

text \<open>2. Choices of the snapshot whose id is no longer among the current choices.\<close>

definition choiceDeleteOps ::
  "SurveyEntryForm \<Rightarrow> SurveyEntryForm option \<Rightarrow> operation list" where
  "choiceDeleteOps currentEntry originalEntry =
     (let currentChoiceIds = filter truthy (map c_id (choices currentEntry));
          originalChoicesWithIds =
            (case originalEntry of
               None \<Rightarrow> []
             | Some original \<Rightarrow> filter (\<lambda>c. truthy (c_id c)) (choices original))
      in concat (map (\<lambda>originalChoice.
           (case c_id originalChoice of
              None \<Rightarrow> []
            | Some chid \<Rightarrow>
                if chid \<noteq> [] \<and> Some chid \<notin> set currentChoiceIds
                then [DeleteChoice chid] else []))
         originalChoicesWithIds))"

text \<open>3. New choices are added, existing ones are updated when they differ from the
  snapshot choice of the same id.\<close>

definition choiceSaveOps ::
  "jsstring \<Rightarrow> SurveyEntryForm \<Rightarrow> SurveyEntryForm option \<Rightarrow> operation list" where
  "choiceSaveOps eid currentEntry originalEntry =
     concat (map (\<lambda>(ci, choice).
        (let originalChoice =
               (case originalEntry of
                  None \<Rightarrow> None
                | Some original \<Rightarrow> find (\<lambda>oc. c_id oc = c_id choice) (choices original))
         in if \<not> truthy (c_id choice) then [AddChoice eid (choiceData ci choice)]
            else (case (c_id choice, originalChoice) of
                    (Some chid, Some oc) \<Rightarrow>
                      if hasChoiceChanged choice oc
                      then [UpdateChoice chid (choiceData ci choice)] else []
                  | _ \<Rightarrow> [])))
       (enumerate 0 (choices currentEntry)))"

text \<open>4. and 5. The same for grid rows.\<close>

definition gridRowDeleteOps ::
  "SurveyEntryForm \<Rightarrow> SurveyEntryForm option \<Rightarrow> operation list" where
  "gridRowDeleteOps currentEntry originalEntry =
     (let currentGridRowIds = filter truthy (map gr_id (gridRows currentEntry));
          originalGridRowsWithIds =
            (case originalEntry of
               None \<Rightarrow> []
             | Some original \<Rightarrow> filter (\<lambda>r. truthy (gr_id r)) (gridRows original))
      in concat (map (\<lambda>originalRow.
           (case gr_id originalRow of
              None \<Rightarrow> []
            | Some rid \<Rightarrow>
                if rid \<noteq> [] \<and> Some rid \<notin> set currentGridRowIds
                then [DeleteGridRow rid] else []))
         originalGridRowsWithIds))"

definition gridRowSaveOps ::
  "jsstring \<Rightarrow> SurveyEntryForm \<Rightarrow> SurveyEntryForm option \<Rightarrow> operation list" where
  "gridRowSaveOps eid currentEntry originalEntry =
     concat (map (\<lambda>(ri, row).
        (let originalRow =
               (case originalEntry of
                  None \<Rightarrow> None
                | Some original \<Rightarrow> find (\<lambda>orow. gr_id orow = gr_id row) (gridRows original))
         in if \<not> truthy (gr_id row) then [AddGridRow eid (gridRowData ri row)]
            else (case (gr_id row, originalRow) of
                    (Some rid, Some orow) \<Rightarrow>
                      if hasGridRowChanged row orow
                      then [UpdateGridRow rid (gridRowData ri row)] else []
                  | _ \<Rightarrow> [])))
       (enumerate 0 (gridRows currentEntry)))"

text \<open>The array \<^verbatim>\<open>promises\<close>: every call is started when it is pushed, and all of them
  are awaited together by one \<^verbatim>\<open>Promise.all\<close>.\<close>

definition basicOperations ::
  "jsstring \<Rightarrow> SurveyEntryForm \<Rightarrow> SurveyEntryForm option \<Rightarrow> operation list" where
  "basicOperations eid currentEntry originalEntry =
     entrySaveOps eid currentEntry originalEntry @
     choiceDeleteOps currentEntry originalEntry @
     choiceSaveOps eid currentEntry originalEntry @
     gridRowDeleteOps currentEntry originalEntry @
     gridRowSaveOps eid currentEntry originalEntry"

text \<open>6. New follow-up questions. The entry data of the two branches differ in the
  references to the parent and to the triggering choice.\<close>

definition followUpData ::
  "int \<Rightarrow> SurveyEntryForm \<Rightarrow> jsstring option \<Rightarrow> jsstring list option \<Rightarrow>
   jsstring option \<Rightarrow> jsstring list option \<Rightarrow> EntryData" where
  "followUpData followUpNumber followUp pcid tcids pid tids =
     \<lparr> ed_clientId = clientId followUp,
       ed_question = question followUp,
       ed_questionNumber = Some followUpNumber,
       ed_questionType = questionType followUp,
       ed_isRequired = isRequired followUp,
       ed_isFollowUp = True,
       ed_parentQuestionClientId = pcid,
       ed_triggerChoiceClientIds = tcids,
       ed_parentQuestionId = pid,
       ed_triggerChoiceIds = tids,
       ed_questionImageFile = questionImageFile followUp,
       ed_choices = map (\<lambda>(ci, c). choiceData ci c) (enumerate 0 (choices followUp)),
       ed_gridRows = map (\<lambda>(ri, r). gridRowData ri r) (enumerate 0 (gridRows followUp)) \<rparr>"

fun followUpOps ::
  "jsstring option \<Rightarrow> SurveyEntryForm \<Rightarrow> int \<Rightarrow> SurveyChoiceForm list \<Rightarrow> operation list" where
  "followUpOps sectionId currentEntry followUpNumber [] = []"
| "followUpOps sectionId currentEntry followUpNumber (choice # rest) =
     (case followUpQuestion choice of
        None \<Rightarrow> followUpOps sectionId currentEntry followUpNumber rest
      | Some followUp \<Rightarrow>
          if hasFollowUp choice \<noteq> Some True
          then followUpOps sectionId currentEntry followUpNumber rest
          else if \<not> truthy (e_id followUp) \<and> truthy (c_id choice) \<and> truthy (e_id currentEntry)
          then AddEntry sectionId
                 (followUpData followUpNumber followUp None None
                    (e_id currentEntry) (Some (case c_id choice of None \<Rightarrow> [] | Some i \<Rightarrow> [i])))
               # followUpOps sectionId currentEntry (followUpNumber + 1) rest
          else if \<not> truthy (e_id followUp) \<and> \<not> truthy (c_id choice)
          then AddEntry sectionId
                 (followUpData followUpNumber followUp
                    (Some (clientId currentEntry)) (Some [c_clientId choice]) None None)
               # followUpOps sectionId currentEntry (followUpNumber + 1) rest
          else followUpOps sectionId currentEntry followUpNumber rest)"

text \<open>The deletions swallow their failure; any other failing call rejects \<^verbatim>\<open>Promise.all\<close>.\<close>

fun swallowsFailure :: "operation \<Rightarrow> bool" where
  "swallowsFailure (DeleteChoice _) = True"
| "swallowsFailure (DeleteGridRow _) = True"
| "swallowsFailure _ = False"

definition rejected :: "(nat \<Rightarrow> bool) \<Rightarrow> operation list \<Rightarrow> bool" where
  "rejected ok ops = list_ex (\<lambda>(i, op). \<not> swallowsFailure op \<and> \<not> ok i) (enumerate 0 ops)"

definition updateSnapshotEntry ::
  "SurveySectionForm list \<Rightarrow> nat \<Rightarrow> nat \<Rightarrow> SurveyEntryForm \<Rightarrow> SurveySectionForm list" where
  "updateSnapshotEntry snapshot i j currentEntry =
     (let newSnapshot = map jsonSection snapshot
      in if i < length newSnapshot \<and> j < length (entries (newSnapshot ! i))
         then newSnapshot[i := (newSnapshot ! i)
                \<lparr> entries := (entries (newSnapshot ! i))[j := jsonEntry currentEntry] \<rparr>]
         else newSnapshot)"

text \<open>
  The result lists the operations in two waves: \<open>wave1\<close> is \<^verbatim>\<open>promises\<close>, \<open>wave2\<close> is
  \<^verbatim>\<open>followUpPromises\<close>, which is only built after \<^verbatim>\<open>await Promise.all(promises)\<close> has
  returned.
\<close>

record save_result =
  wave1 :: "operation list"
  wave2 :: "operation list"
  sq_toast :: toast
  sq_refreshed :: bool
  sq_newState :: form_state

definition handleSaveCurrentQuestion :: "(nat \<Rightarrow> bool) \<Rightarrow> form_state \<Rightarrow> save_result" where
  "handleSaveCurrentQuestion ok st =
     (let originalEntry =
            entryAt (originalSectionsSnapshot st) (selectedSection st) (selectedQuestion st);
          stop = (\<lambda>m. \<lparr> wave1 = [], wave2 = [], sq_toast = ToastError m,
                        sq_refreshed = False, sq_newState = st \<rparr>)
      in case entryAt (sections st) (selectedSection st) (selectedQuestion st) of
           None \<Rightarrow> stop CannotSaveQuestion
         | Some currentEntry \<Rightarrow>
             (case e_id currentEntry of
                None \<Rightarrow> stop CannotSaveQuestion
              | Some eid \<Rightarrow>
                  if eid = [] then stop CannotSaveQuestion
                  else if \<not> isValid (validateSurveyEntry currentEntry)
                  then stop (EntryInvalid (firstError (validateSurveyEntry currentEntry)))
                  else
                    (let promises = basicOperations eid currentEntry originalEntry
                     in if rejected ok promises then
                          \<lparr> wave1 = promises, wave2 = [],
                            sq_toast = ToastError FailedToSaveQuestion,
                            sq_refreshed = False, sq_newState = st \<rparr>
                        else
                          (let followUpPromises =
                                 followUpOps
                                   (case nthOpt (sections st) (selectedSection st) of
                                      None \<Rightarrow> None | Some s \<Rightarrow> s_id s)
                                   currentEntry (getNextQuestionNumber (sections st))
                                   (choices currentEntry)
                           in if length promises + length followUpPromises > 0 then
                                \<lparr> wave1 = promises, wave2 = followUpPromises,
                                  sq_toast = ToastSuccess QuestionSaved,
                                  sq_refreshed = True,
                                  sq_newState = st\<lparr> originalSectionsSnapshot :=
                                    updateSnapshotEntry (originalSectionsSnapshot st)
                                      (selectedSection st) (selectedQuestion st) currentEntry \<rparr> \<rparr>
                              else
                                \<lparr> wave1 = promises, wave2 = followUpPromises,
                                  sq_toast = ToastInfo NoChangesToSave,
                                  sq_refreshed = False, sq_newState = st \<rparr>))))"

text \<open>
  \<open>a\<close> has completed before \<open>b\<close> is dispatched when \<open>a\<close> belongs to a wave that is awaited
  before the wave of \<open>b\<close> is started.
\<close>

definition completedBeforeDispatch :: "save_result \<Rightarrow> operation \<Rightarrow> operation \<Rightarrow> bool" where
  "completedBeforeDispatch r a b \<longleftrightarrow> a \<in> set (wave1 r) \<and> b \<in> set (wave2 r)"

section \<open>Concrete surveys\<close>

text \<open>
  Builders for the concrete trees on which the results below are evaluated. A persisted
  node looks as \<^verbatim>\<open>transformResponseToForm\<close> builds it (the server id doubles as client
  id); a new node has a client id only.
\<close>

definition savedChoice :: "string \<Rightarrow> string \<Rightarrow> string \<Rightarrow> SurveyChoiceForm" where
  "savedChoice i ord txt =
     SurveyChoiceForm (js i) (Some (js ord)) (js txt) None NoFile (Some (js i))
       (Some False) (Some False) None"

definition newChoice :: "string \<Rightarrow> string \<Rightarrow> string \<Rightarrow> SurveyChoiceForm" where
  "newChoice cid ord txt =
     SurveyChoiceForm (js cid) (Some (js ord)) (js txt) None NoFile None None (Some False) None"

definition newRow :: "int \<Rightarrow> string \<Rightarrow> SurveyGridRowForm" where
  "newRow n txt =
     \<lparr> gr_id = None, rowNumber = n, rowText = js txt, rowImage = None, rowImageFile = NoFile \<rparr>"

definition savedEntry ::
  "string \<Rightarrow> string \<Rightarrow> SurveyQuestionType \<Rightarrow> file_slot \<Rightarrow> SurveyChoiceForm list \<Rightarrow>
   SurveyGridRowForm list \<Rightarrow> SurveyEntryForm" where
  "savedEntry i q ty file cs rs =
     SurveyEntryForm (js i) (js q) (Some 1) None file ty True cs rs (Some False) False
       None None None None (Some (js i))"

definition newEntry ::
  "string \<Rightarrow> string \<Rightarrow> SurveyQuestionType \<Rightarrow> SurveyChoiceForm list \<Rightarrow> SurveyEntryForm" where
  "newEntry cid q ty cs =
     SurveyEntryForm (js cid) (js q) (Some 1) None NoFile ty True cs [] (Some False) False
       None None None None None"

text \<open>A follow-up as \<^verbatim>\<open>createEmptyFollowUp\<close> makes it, with its question text typed in.\<close>

definition newFollowUp :: "string \<Rightarrow> string \<Rightarrow> string \<Rightarrow> string \<Rightarrow> SurveyEntryForm" where
  "newFollowUp cid q parentCid choiceCid =
     SurveyEntryForm (js cid) (js q) None None NoFile TEXT False [] [] None True
       (Some (js parentCid)) (Some [js choiceCid]) None None None"

definition newChoiceWithFollowUp ::
  "string \<Rightarrow> string \<Rightarrow> string \<Rightarrow> SurveyEntryForm \<Rightarrow> SurveyChoiceForm" where
  "newChoiceWithFollowUp cid ord txt fu =
     SurveyChoiceForm (js cid) (Some (js ord)) (js txt) None NoFile None None (Some True)
       (Some fu)"

definition savedSection :: "string \<Rightarrow> string \<Rightarrow> SurveyEntryForm list \<Rightarrow> SurveySectionForm" where
  "savedSection i ttl es =
     \<lparr> title = js ttl, description = None, sectionNumber = Some 1, entries = es,
       s_id = Some (js i) \<rparr>"

definition newSection :: "string \<Rightarrow> SurveyEntryForm list \<Rightarrow> SurveySectionForm" where
  "newSection ttl es =
     \<lparr> title = js ttl, description = Some [], sectionNumber = Some 2, entries = es,
       s_id = None \<rparr>"

text \<open>The editor in edit mode, with working tree \<open>secs\<close> over snapshot \<open>snap\<close>.\<close>

definition editing :: "SurveySectionForm list \<Rightarrow> SurveySectionForm list \<Rightarrow> form_state" where
  "editing secs snap =
     \<lparr> editingSurveyId = Some (js ''sv1''), surveyName = js ''Survey'', surveyType = BASELINE,
       surveyDescription = [], sections = secs, sectionsLoaded = True,
       originalSectionsCount = length snap,
       originalQuestionCounts = map (\<lambda>s. length (entries s)) snap,
       originalSectionsSnapshot = snap,
       selectedSection = 0, selectedQuestion = 0, editMode = QuestionMode \<rparr>"

text \<open>The editor in edit mode before the survey detail has arrived.\<close>

definition unloaded :: form_state where
  "unloaded =
     \<lparr> editingSurveyId = Some (js ''sv1''), surveyName = js ''Survey'', surveyType = BASELINE,
       surveyDescription = [],
       sections = [emptySection (js ''u0'') (js ''u1'') (js ''u2'') (Some 1)],
       sectionsLoaded = False, originalSectionsCount = 0, originalQuestionCounts = [],
       originalSectionsSnapshot = [], selectedSection = 0, selectedQuestion = 0,
       editMode = SurveyMode \<rparr>"

definition yesNo :: "SurveyChoiceForm list" where
  "yesNo = [savedChoice ''c1'' ''A'' ''Yes'', savedChoice ''c2'' ''B'' ''No'']"

text \<open>A focus action that adds neither a question nor a section.\<close>

definition addsNothing :: "focus_section option \<Rightarrow> bool" where
  "addsNothing f = (case f of None \<Rightarrow> True | Some x \<Rightarrow> fs_action x = EditQuestions)"

subsection \<open>Server responses\<close>

definition choiceResponse :: "string \<Rightarrow> string \<Rightarrow> string \<Rightarrow> SurveyChoiceResponse" where
  "choiceResponse i ord txt =
     \<lparr> rc_id = js i, rc_choiceOrder = js ord, rc_choiceText = js txt,
       rc_choiceImageUrl = None, rc_hasTextInput = Some False \<rparr>"

definition mainResponse ::
  "string \<Rightarrow> int \<Rightarrow> string \<Rightarrow> SurveyChoiceResponse list \<Rightarrow> SurveyEntryResponse" where
  "mainResponse i n q cs =
     \<lparr> re_id = js i, re_questionNumber = n, re_question = js q, re_questionImageUrl = None,
       re_questionType = RADIO, re_isRequired = True, re_choices = cs, re_gridRows = [],
       re_hasTextInput = Some False, re_isFollowUp = False, re_parentQuestionId = None,
       re_triggerChoiceIds = None \<rparr>"

definition followUpResponse ::
  "string \<Rightarrow> int \<Rightarrow> string \<Rightarrow> string \<Rightarrow> string list \<Rightarrow> SurveyEntryResponse" where
  "followUpResponse i n q parent triggers =
     \<lparr> re_id = js i, re_questionNumber = n, re_question = js q, re_questionImageUrl = None,
       re_questionType = TEXT, re_isRequired = False, re_choices = [], re_gridRows = [],
       re_hasTextInput = Some False, re_isFollowUp = True, re_parentQuestionId = Some (js parent),
       re_triggerChoiceIds = Some (map js triggers) \<rparr>"

definition basicsSection :: "SurveyEntryResponse list \<Rightarrow> SurveySectionResponse" where
  "basicsSection es =
     \<lparr> rs_id = js ''s1'', rs_title = js ''Basics'', rs_description = None,
       rs_sectionNumber = 1, rs_entries = es \<rparr>"

definition surveyResponse :: "SurveyEntryResponse list \<Rightarrow> SurveyDetailResponse" where
  "surveyResponse es =
     \<lparr> rd_id = js ''sv1'', rd_name = js ''Survey'', rd_type = Some BASELINE,
       rd_description = [], rd_sections = [basicsSection es] \<rparr>"

subsection \<open>Working trees\<close>

text \<open>A new question with a follow-up under its first choice, and a second new question.\<close>

definition smokingEntries :: "SurveyEntryForm list" where
  "smokingEntries =
     [newEntry ''q1'' ''Do you smoke?'' RADIO
        [newChoiceWithFollowUp ''a'' ''A'' ''Yes''
           (newFollowUp ''f1'' ''How often?'' ''q1'' ''a''),
         newChoice ''b'' ''B'' ''No''],
      newEntry ''q2'' ''Age?'' TEXT []]"

text \<open>A persisted question, as loaded and with a picked image file.\<close>

definition plainQuestion :: SurveyEntryForm where
  "plainQuestion = savedEntry ''q1'' ''Do you smoke?'' RADIO NoFile yesNo []"

definition pictureQuestion :: SurveyEntryForm where
  "pictureQuestion = savedEntry ''q1'' ''Do you smoke?'' RADIO (FileObj 0) yesNo []"

text \<open>The user picked an image for a persisted question; nothing else differs from the
  snapshot.\<close>

definition pictureEdit :: form_state where
  "pictureEdit =
     editing [savedSection ''s1'' ''Basics'' [pictureQuestion]]
             [savedSection ''s1'' ''Basics'' [plainQuestion]]"

text \<open>The user renamed a section; nothing else differs from the snapshot.\<close>

definition titleEdit :: form_state where
  "titleEdit =
     editing [savedSection ''s1'' ''Habits'' [plainQuestion]]
             [savedSection ''s1'' ''Basics'' [plainQuestion]]"


text \<open>The user renamed both choices of a persisted question.\<close>

definition twoChoiceEdits :: form_state where
  "twoChoiceEdits =
     editing [savedSection ''s1'' ''Basics''
                [savedEntry ''q1'' ''Do you smoke?'' RADIO NoFile
                   [savedChoice ''c1'' ''A'' ''Often'', savedChoice ''c2'' ''B'' ''Never''] []]]
             [savedSection ''s1'' ''Basics'' [plainQuestion]]"

text \<open>The user renamed a section and reworded both of its questions.\<close>

definition threeEdits :: form_state where
  "threeEdits =
     editing [savedSection ''s1'' ''Habits''
                [savedEntry ''q1'' ''Do you vape?'' RADIO NoFile yesNo [],
                 savedEntry ''q2'' ''Since when?'' TEXT NoFile [] []]]
             [savedSection ''s1'' ''Basics''
                [plainQuestion, savedEntry ''q2'' ''How long?'' TEXT NoFile [] []]]"

definition allButLastCallSucceed :: "nat \<Rightarrow> bool" where
  "allButLastCallSucceed i \<longleftrightarrow> i < 2"

text \<open>A persisted question whose text was blanked and which was left with one choice.\<close>

definition badQuestion :: SurveyEntryForm where
  "badQuestion = savedEntry ''q1'' [] RADIO NoFile [savedChoice ''c1'' ''A'' ''Yes''] []"

definition badEdit :: form_state where
  "badEdit =
     editing [savedSection ''s1'' ''Basics'' [badQuestion]]
             [savedSection ''s1'' ''Basics'' [plainQuestion]]"

text \<open>The user added a section with two questions, one of them with a follow-up.\<close>

definition sectionAdded :: form_state where
  "sectionAdded =
     editing [savedSection ''s1'' ''Basics'' [plainQuestion], newSection ''Habits'' smokingEntries]
             [savedSection ''s1'' ''Basics'' [plainQuestion]]"

text \<open>The user added a section and did not fill in its question (the state after
  \<^verbatim>\<open>addSection\<close>, which puts \<^verbatim>\<open>emptyEntry\<close> into the new section).\<close>

definition blankSectionAdded :: form_state where
  "blankSectionAdded =
     editing [savedSection ''s1'' ''Basics'' [plainQuestion],
              (emptySection (js ''u0'') (js ''u1'') (js ''u2'') (Some 2))
                \<lparr> entries := [emptyEntry (js ''u3'') (js ''u4'') (js ''u5'') (Some 2)] \<rparr>]
             [savedSection ''s1'' ''Basics'' [plainQuestion]]"

subsection \<open>Responses\<close>

text \<open>One section with a question and a follow-up on its first choice.\<close>

definition smokingResponse :: SurveyDetailResponse where
  "smokingResponse =
     surveyResponse
       [mainResponse ''q1'' 1 ''Do you smoke?''
          [choiceResponse ''c1'' ''A'' ''Yes'', choiceResponse ''c2'' ''B'' ''No''],
        followUpResponse ''f1'' 2 ''How often?'' ''q1'' [''c1'']]"

text \<open>One section from which every question has been deleted.\<close>

definition emptiedResponse :: SurveyDetailResponse where
  "emptiedResponse = surveyResponse []"

text \<open>Two follow-ups of the same question that are both triggered by its first choice;
  in the second response the later follow-up is triggered by the second choice as well.\<close>

definition yesChoice :: SurveyChoiceResponse where
  "yesChoice = choiceResponse ''c1'' ''A'' ''Yes''"

definition smokingQuestion :: SurveyEntryResponse where
  "smokingQuestion =
     mainResponse ''q1'' 1 ''Do you smoke?'' [yesChoice, choiceResponse ''c2'' ''B'' ''No'']"

definition howOften :: SurveyEntryResponse where
  "howOften = followUpResponse ''f1'' 2 ''How often?'' ''q1'' [''c1'']"

definition sinceWhen :: SurveyEntryResponse where
  "sinceWhen = followUpResponse ''f2'' 3 ''Since when?'' ''q1'' [''c1'']"

definition whyThat :: SurveyEntryResponse where
  "whyThat = followUpResponse ''f2'' 3 ''Why?'' ''q1'' [''c1'', ''c2'']"

definition sharedTriggerResponse :: SurveyDetailResponse where
  "sharedTriggerResponse = surveyResponse [smokingQuestion, howOften, sinceWhen]"

definition overlappingTriggerResponse :: SurveyDetailResponse where
  "overlappingTriggerResponse = surveyResponse [smokingQuestion, howOften, whyThat]"

subsection \<open>Saving one question\<close>

text \<open>The persisted single-choice question was turned into a grid question: the editor
  replaced its choices and rows by new ones, which the user filled in.\<close>

definition gridQuestion :: SurveyEntryForm where
  "gridQuestion =
     savedEntry ''q1'' ''Do you smoke?'' GRID NoFile
       [newChoice ''n1'' ''A'' ''Often'', newChoice ''n2'' ''B'' ''Never'']
       [newRow 1 ''At home'', newRow 2 ''At work'']"

definition typeChanged :: form_state where
  "typeChanged =
     editing [savedSection ''s1'' ''Basics'' [gridQuestion]]
             [savedSection ''s1'' ''Basics'' [plainQuestion]]"

text \<open>The persisted question got a third choice, and that new choice a follow-up.\<close>

definition whenFollowUp :: SurveyEntryForm where
  "whenFollowUp = newFollowUp ''f9'' ''When?'' ''q1'' ''n3''"

definition sometimesChoice :: SurveyChoiceForm where
  "sometimesChoice = newChoiceWithFollowUp ''n3'' ''C'' ''Sometimes'' whenFollowUp"

definition extendedQuestion :: SurveyEntryForm where
  "extendedQuestion =
     savedEntry ''q1'' ''Do you smoke?'' RADIO NoFile (yesNo @ [sometimesChoice]) []"

text \<open>The same, with the text of the new choice left blank.\<close>

definition blankChoiceAdded :: form_state where
  "blankChoiceAdded =
     editing [savedSection ''s1'' ''Basics''
                [savedEntry ''q1'' ''Do you smoke?'' RADIO NoFile
                   (yesNo @ [newChoiceWithFollowUp ''n3'' ''C'' [] whenFollowUp]) []]]
             [savedSection ''s1'' ''Basics'' [plainQuestion]]"

definition followUpAdded :: form_state where
  "followUpAdded =
     editing [savedSection ''s1'' ''Basics'' [extendedQuestion]]
             [savedSection ''s1'' ''Basics'' [plainQuestion]]"

subsection \<open>Networks and identifier supplies\<close>

definition everyCallSucceeds :: "nat \<Rightarrow> bool" where
  "everyCallSucceeds i = True"

definition everyCallFails :: "nat \<Rightarrow> bool" where
  "everyCallFails i = False"


text \<open>For a load that draws no identifier.\<close>

definition noUuids :: "nat \<Rightarrow> jsstring" where
  "noUuids i = []"

section \<open>Auxiliary notions of the proofs\<close>

text \<open>The loop invariant of the flattening: the counter is one past the number of entries
  emitted, which are numbered from 1.\<close>

definition numbered :: "FlatEntry list \<times> int \<Rightarrow> bool" where
  "numbered acc \<longleftrightarrow> snd acc = int (length (fst acc)) + 1 \<and>
     map fe_questionNumber (fst acc) = map Some [1..int (length (fst acc))]"

definition followUpLinkage ::
  "SurveyEntryForm \<Rightarrow> SurveyChoiceForm \<times> SurveyEntryForm \<Rightarrow>
   jsstring \<times> bool \<times> jsstring option \<times> jsstring list option" where
  "followUpLinkage e = (\<lambda>(c, fu). (clientId fu, True, Some (clientId e), Some [c_clientId c]))"

section \<open>Flattening for the payload\<close>


lemma numbered_pushFollowUp: "numbered acc \<Longrightarrow> numbered (pushFollowUp e c acc)"
  by (cases acc) (auto simp: numbered_def pushFollowUp_def followUpPayload_def upto_rec2 split: option.splits)

lemma numbered_fold_pushFollowUp: "numbered acc \<Longrightarrow> numbered (fold (pushFollowUp e) cs acc)"
  by (induction cs arbitrary: acc) (simp_all add: numbered_pushFollowUp)

lemma numbered_pushEntry: "numbered acc \<Longrightarrow> numbered (pushEntry e acc)"
proof -
  assume a: "numbered acc"
  obtain res qn where acc: "acc = (res, qn)" by (cases acc)
  from a acc have "numbered (res @ [mainPayload qn e], qn + 1)"
    by (simp add: numbered_def mainPayload_def upto_rec2)
  then show ?thesis
    by (simp add: acc pushEntry_def numbered_fold_pushFollowUp)
qed

lemma numbered_fold_pushEntry: "numbered acc \<Longrightarrow> numbered (fold pushEntry es acc)"
  by (induction es arbitrary: acc) (simp_all add: numbered_pushEntry)

lemma flatten_numbered:
  "map fe_questionNumber (flattenEntriesForPayload es) =
     map Some [1..int (length (flattenEntriesForPayload es))]"
proof -
  have "numbered ([], 1)" by (simp add: numbered_def)
  then have "numbered (fold pushEntry es ([], 1))" by (rule numbered_fold_pushEntry)
  then show ?thesis by (simp add: numbered_def flattenEntriesForPayload_def)
qed

lemma linkage_fold_pushFollowUp:
  "map linkage (fst (fold (pushFollowUp e) cs acc)) =
     map linkage (fst acc) @ map (followUpLinkage e) (nestedFollowUps cs)"
proof (induction cs arbitrary: acc)
  case Nil
  then show ?case by (simp add: nestedFollowUps_def)
next
  case (Cons c cs)
  obtain res qn where acc: "acc = (res, qn)" by (cases acc)
  show ?case
    by (simp add: Cons.IH acc)
       (simp add: pushFollowUp_def nestedFollowUps_def followUpLinkage_def linkage_def followUpPayload_def split: option.splits)
qed

lemma linkage_pushEntry:
  "map linkage (fst (pushEntry e acc)) =
     map linkage (fst acc) @ (clientId e, False, None, None) # map (followUpLinkage e) (nestedFollowUps (choices e))"
  by (cases acc) (simp add: pushEntry_def linkage_fold_pushFollowUp, simp add: linkage_def mainPayload_def)

lemma linkage_fold_pushEntry:
  "map linkage (fst (fold pushEntry es acc)) =
     map linkage (fst acc) @
     concat (map (\<lambda>e. (clientId e, False, None, None) # map (followUpLinkage e) (nestedFollowUps (choices e))) es)"
  by (induction es arbitrary: acc) (simp_all add: linkage_pushEntry)

text \<open>
  C10. \<^verbatim>\<open>flattenEntriesForPayload\<close> numbers its output 1, 2, ..., N over the whole list,
  and emits, for each entry in turn, the main question (not a follow-up, no parent, no
  triggers) immediately followed by the follow-ups taken from its choices, in choice
  order, each marked as a follow-up whose parent is the entry's client id and whose
  trigger list is exactly the client id of the owning choice.
\<close>

theorem flatten_order_and_numbering:
  "map fe_questionNumber (flattenEntriesForPayload es) =
     map Some [1..int (length (flattenEntriesForPayload es))] \<and>
   map linkage (flattenEntriesForPayload es) =
     concat (map (\<lambda>e. (clientId e, False, None, None) #
                       map (\<lambda>(c, fu). (clientId fu, True, Some (clientId e), Some [c_clientId c]))
                           (nestedFollowUps (choices e))) es)"
  using flatten_numbered [of es] linkage_fold_pushEntry [of es "([], 1)"]
  by (simp add: flattenEntriesForPayload_def followUpLinkage_def)

text \<open>The two questions of \<open>smokingEntries\<close> and the follow-up come out as 1, 2, 3, the
  follow-up right after its parent.\<close>

theorem flatten_order_and_numbering_witness:
  "map fe_questionNumber (flattenEntriesForPayload smokingEntries) = [Some 1, Some 2, Some 3] \<and>
   map linkage (flattenEntriesForPayload smokingEntries) =
     [(js ''q1'', False, None, None),
      (js ''f1'', True, Some (js ''q1''), Some [js ''a'']),
      (js ''q2'', False, None, None)]"
proof -
  have len: "length (flattenEntriesForPayload smokingEntries) = 3"
    by code_simp
  have up: "[1..3] = [1, 2, 3 :: int]"
    by code_simp
  have blocks:
    "concat (map (\<lambda>e. (clientId e, False, None, None) #
                       map (\<lambda>(c, fu). (clientId fu, True, Some (clientId e), Some [c_clientId c]))
                           (nestedFollowUps (choices e))) smokingEntries) =
     [(js ''q1'', False, None, None),
      (js ''f1'', True, Some (js ''q1''), Some [js ''a'']),
      (js ''q2'', False, None, None)]"
    by code_simp
  from flatten_order_and_numbering [of smokingEntries] show ?thesis
    by (simp add: len up blocks)
qed

section \<open>The change detector on an entry and itself\<close>

text \<open>
  C2, amended. For every entry \<open>E\<close>, \<^verbatim>\<open>hasEntryChanged(E, E)\<close> is false unless the
  \<^verbatim>\<open>questionImageFile\<close> of \<open>E\<close> holds a picked file, in which case it is true.
\<close>

theorem detector_on_itself: "hasEntryChanged E E = instanceofFile (questionImageFile E)"
  by (simp add: hasEntryChanged_def)

text \<open>Without a picked file the detector finds no change between a question and itself.\<close>

theorem detector_on_itself_witness: "\<not> hasEntryChanged plainQuestion plainQuestion"
proof -
  have "\<not> instanceofFile (questionImageFile plainQuestion)"
    by (simp add: plainQuestion_def savedEntry_def)
  with detector_on_itself [of plainQuestion] show ?thesis by simp
qed

text \<open>C2 as stated fails: a question with a picked image differs from itself.\<close>

theorem detector_on_itself_counterexample: "hasEntryChanged pictureQuestion pictureQuestion"
  by (simp add: hasEntryChanged_def pictureQuestion_def savedEntry_def)

section \<open>Saving against the snapshot copy\<close>

lemma concat_enum_zip_map_Nil:
  "(\<And>i x. x \<in> set xs \<Longrightarrow> g (i, x, f x) = []) \<Longrightarrow>
   concat (map g (enumerate n (zip xs (map f xs)))) = []"
  by (induction xs arbitrary: n) simp_all

lemma concat_zip_map_Nil:
  "(\<And>x. x \<in> set xs \<Longrightarrow> g (x, f x) = []) \<Longrightarrow> concat (map g (zip xs (map f xs))) = []"
  by (induction xs) simp_all

lemma hasEntryChanged_json:
  "hasEntryChanged e (jsonEntry e) = instanceofFile (questionImageFile e)"
  by (cases e) (simp add: hasEntryChanged_def)

lemma hasChoiceChanged_json:
  "hasChoiceChanged c (jsonChoice c) = instanceofFile (choiceImageFile c)"
  by (cases c) (simp add: hasChoiceChanged_def)

lemma hasGridRowChanged_json:
  "hasGridRowChanged r (jsonGridRow r) = instanceofFile (rowImageFile r)"
  by (simp add: hasGridRowChanged_def jsonGridRow_def)

lemma hasSectionChanged_json: "\<not> hasSectionChanged s (jsonSection s)"
  by (simp add: hasSectionChanged_def jsonSection_def)

lemma choices_json: "choices (jsonEntry e) = map jsonChoice (choices e)"
  by (cases e) simp

lemma gridRows_json: "gridRows (jsonEntry e) = map jsonGridRow (gridRows e)"
  by (cases e) simp

lemma sectionUpdateOps_json: "sectionUpdateOps secs (map jsonSection secs) = []"
  unfolding sectionUpdateOps_def
  by (rule concat_enum_zip_map_Nil) (simp add: hasSectionChanged_json split: option.splits)

lemma choiceUpdateOps_json:
  "\<not> list_ex (\<lambda>c. truthy (c_id c) \<and> instanceofFile (choiceImageFile c)) cs \<Longrightarrow>
   choiceUpdateOps cs (map jsonChoice cs) = []"
  unfolding choiceUpdateOps_def
  by (rule concat_enum_zip_map_Nil)
     (auto simp: hasChoiceChanged_json list_ex_iff truthy_def split: option.splits)

lemma gridRowUpdateOps_json:
  "\<not> list_ex (\<lambda>r. truthy (gr_id r) \<and> instanceofFile (rowImageFile r)) rs \<Longrightarrow>
   gridRowUpdateOps rs (map jsonGridRow rs) = []"
  unfolding gridRowUpdateOps_def
  by (rule concat_enum_zip_map_Nil)
     (auto simp: hasGridRowChanged_json list_ex_iff truthy_def split: option.splits)

lemma entryChangeOps_json:
  "\<not> entryHasPendingFile e \<Longrightarrow> entryChangeOps e (jsonEntry e) = []"
  by (auto simp: entryChangeOps_def entryHasPendingFile_def hasEntryChanged_json choices_json
        gridRows_json choiceUpdateOps_json gridRowUpdateOps_json truthy_def split: option.splits)

lemma entryUpdateOps_json:
  assumes "\<not> hasPendingFiles secs"
  shows "entryUpdateOps secs (map jsonSection secs) = []"
proof -
  have inner: "concat (map (\<lambda>(ce, oe). entryChangeOps ce oe)
                 (zip (entries s) (map jsonEntry (entries s)))) = []"
    if "s \<in> set secs" for s
  proof (rule concat_zip_map_Nil)
    fix e assume "e \<in> set (entries s)"
    with assms that have "\<not> entryHasPendingFile e"
      by (auto simp: hasPendingFiles_def list_ex_iff)
    then show "(case (e, jsonEntry e) of (ce, oe) \<Rightarrow> entryChangeOps ce oe) = []"
      by (simp add: entryChangeOps_json)
  qed
  show ?thesis
    unfolding entryUpdateOps_def
    by (rule concat_zip_map_Nil) (simp add: jsonSection_def inner)
qed

lemma newSectionOps_all: "newSectionOps (length secs) secs = []"
  by (simp add: newSectionOps_def)

lemma newEntryOps_all:
  "newEntryOps (length secs) (map (\<lambda>s. length (entries s)) secs) secs = []"
  by (auto simp: newEntryOps_def originalQCount_def in_set_enumerate_eq)

lemma editModeOperations_synced:
  assumes "\<not> hasPendingFiles secs"
  shows "editModeOperations (st\<lparr> sections := secs,
            originalSectionsSnapshot := map jsonSection secs,
            originalSectionsCount := length secs,
            originalQuestionCounts := map (\<lambda>s. length (entries s)) secs \<rparr>) = []"
  using assms
  by (simp add: editModeOperations_def sectionUpdateOps_json entryUpdateOps_json
        newSectionOps_all newEntryOps_all)

subsection \<open>Counting the calls that report back\<close>

lemma countWhere_cong:
  assumes "\<And>i. i < length ops \<Longrightarrow> P i = Q i"
  shows "countWhere P ops = countWhere Q ops"
  unfolding countWhere_def
  by (rule arg_cong [where f = sum_list], rule map_cong)
     (auto simp: in_set_enumerate_eq assms)

lemma settles_reportsBack: "settles ops \<Longrightarrow> i < length ops \<Longrightarrow> reportsBack ops i"
  by (simp add: settles_def list_all_iff)

lemma countWhere_settled:
  "settles ops \<Longrightarrow> countWhere (\<lambda>i. reportsBack ops i \<and> P i) ops = countWhere P ops"
  by (rule countWhere_cong) (simp add: settles_reportsBack)




subsection \<open>handleSubmit, case by case\<close>

lemma handleSubmit_invalid:
  "validateForm st = Some m \<Longrightarrow>
   handleSubmit ok st =
     \<lparr> operations = [], settled = True, toast = Some (ToastError m), totalChanges = 0,
       successCount = 0, failureCount = 0, refreshed = False, cancelled = False,
       newState = st \<rparr>"
  by (simp add: handleSubmit_def)


lemma handleSubmit_edit:
  assumes "validateForm st = None" "isEditMode st"
  shows "operations (handleSubmit ok st) = editModeOperations st"
    and "totalChanges (handleSubmit ok st) = sum_list (map changeCount (editModeOperations st))"
    and "settled (handleSubmit ok st) = settles (editModeOperations st)"
    and "successCount (handleSubmit ok st) =
           countWhere (\<lambda>i. reportsBack (editModeOperations st) i \<and> ok i) (editModeOperations st)"
    and "failureCount (handleSubmit ok st) =
           countWhere (\<lambda>i. reportsBack (editModeOperations st) i \<and> \<not> ok i)
             (editModeOperations st)"
  using assms by (simp_all add: handleSubmit_def Let_def)


lemma handleSubmit_nothing:
  assumes "validateForm st = None" "isEditMode st" "editModeOperations st = []"
  shows "toast (handleSubmit ok st) = Some (ToastMessage NoChangesToSave)"
    and "newState (handleSubmit ok st) = st"
  using assms by (simp_all add: handleSubmit_def Let_def settles_def)

lemma handleSubmit_all_saved:
  assumes "validateForm st = None" "isEditMode st" "settles (editModeOperations st)"
    "sum_list (map changeCount (editModeOperations st)) \<noteq> 0"
    "countWhere (\<lambda>i. \<not> ok i) (editModeOperations st) = 0"
  shows "newState (handleSubmit ok st) =
           st\<lparr> originalSectionsSnapshot := map jsonSection (sections st),
                originalSectionsCount := length (sections st),
                originalQuestionCounts := map (\<lambda>s. length (entries s)) (sections st) \<rparr>"
  using assms by (auto simp: handleSubmit_def Let_def countWhere_settled)


lemma validateForm_cong:
  "surveyName st' = surveyName st \<Longrightarrow> sections st' = sections st \<Longrightarrow>
   validateForm st' = validateForm st"
  by (simp add: validateForm_def)

subsection \<open>Every operation counts\<close>

lemma changeCount_sectionUpdateOps: "op \<in> set (sectionUpdateOps a b) \<Longrightarrow> changeCount op = 1"
  by (auto simp: sectionUpdateOps_def split: option.splits if_splits)

lemma changeCount_choiceUpdateOps: "op \<in> set (choiceUpdateOps a b) \<Longrightarrow> changeCount op = 1"
  by (auto simp: choiceUpdateOps_def split: option.splits if_splits)

lemma changeCount_gridRowUpdateOps: "op \<in> set (gridRowUpdateOps a b) \<Longrightarrow> changeCount op = 1"
  by (auto simp: gridRowUpdateOps_def split: option.splits if_splits)

lemma changeCount_entryChangeOps: "op \<in> set (entryChangeOps a b) \<Longrightarrow> changeCount op = 1"
  by (auto simp: entryChangeOps_def changeCount_choiceUpdateOps changeCount_gridRowUpdateOps
      split: option.splits if_splits)

lemma changeCount_entryUpdateOps: "op \<in> set (entryUpdateOps a b) \<Longrightarrow> changeCount op = 1"
  by (auto simp: entryUpdateOps_def changeCount_entryChangeOps)

lemma changeCount_newEntryOps: "op \<in> set (newEntryOps c q s) \<Longrightarrow> changeCount op = 1"
  by (auto simp: newEntryOps_def split: if_splits)

lemma changeCount_newSectionOps: "op \<in> set (newSectionOps c s) \<Longrightarrow> 0 < changeCount op"
  by (auto simp: newSectionOps_def bulkPayload_def split: if_splits)

lemma changeCount_editModeOperations:
  "op \<in> set (editModeOperations st) \<Longrightarrow> 0 < changeCount op"
  by (auto simp: editModeOperations_def changeCount_sectionUpdateOps changeCount_entryUpdateOps
      changeCount_newEntryOps changeCount_newSectionOps)

lemma no_changes_no_operations:
  assumes "sum_list (map changeCount (editModeOperations st)) = 0"
  shows "editModeOperations st = []"
proof (rule ccontr)
  assume "editModeOperations st \<noteq> []"
  then obtain op where op: "op \<in> set (editModeOperations st)"
    by (cases "editModeOperations st") auto
  with assms have "changeCount op = 0" by (simp add: sum_list_eq_0_iff)
  with changeCount_editModeOperations [OF op] show False by simp
qed

text \<open>
  C3, amended. In edit mode, when a run of the save completes with no failed change and
  no persisted question, choice or grid row of the working tree carries a picked file,
  running the save again on the unchanged working tree issues no operation and counts
  no change.
\<close>

theorem resave_without_pending_files:
  assumes edit: "isEditMode st"
    and completes: "settled (handleSubmit ok1 st)"
    and ok1: "failureCount (handleSubmit ok1 st) = 0"
    and files: "\<not> hasPendingFiles (sections st)"
  shows "operations (handleSubmit ok2 (newState (handleSubmit ok1 st))) = [] \<and>
         totalChanges (handleSubmit ok2 (newState (handleSubmit ok1 st))) = 0"
proof (cases "validateForm st")
  case (Some m)
  then show ?thesis by (simp add: handleSubmit_invalid)
next
  case None
  note valid = None
  show ?thesis
  proof (cases "sum_list (map changeCount (editModeOperations st)) = 0")
    case True
    then have ops: "editModeOperations st = []" by (rule no_changes_no_operations)
    then have "newState (handleSubmit ok1 st) = st"
      using valid edit by (simp add: handleSubmit_nothing)
    then show ?thesis
      using valid edit ops by (simp add: handleSubmit_edit)
  next
    case False
    let ?st' = "st\<lparr> originalSectionsSnapshot := map jsonSection (sections st),
                    originalSectionsCount := length (sections st),
                    originalQuestionCounts := map (\<lambda>s. length (entries s)) (sections st) \<rparr>"
    from completes valid edit have s: "settles (editModeOperations st)"
      by (simp add: handleSubmit_edit)
    from ok1 valid edit s have "countWhere (\<lambda>i. \<not> ok1 i) (editModeOperations st) = 0"
      by (simp add: handleSubmit_edit countWhere_settled)
    with valid edit s False have st': "newState (handleSubmit ok1 st) = ?st'"
      by (rule handleSubmit_all_saved)
    have "editModeOperations (st\<lparr> sections := sections st,
            originalSectionsSnapshot := map jsonSection (sections st),
            originalSectionsCount := length (sections st),
            originalQuestionCounts := map (\<lambda>s. length (entries s)) (sections st) \<rparr>) = []"
      using files by (rule editModeOperations_synced)
    then have ops: "editModeOperations ?st' = []" by simp
    have "validateForm ?st' = validateForm st"
      by (rule validateForm_cong) simp_all
    with valid have v: "validateForm ?st' = None" by simp
    have e: "isEditMode ?st'"
      using edit by (simp add: isEditMode_def)
    show ?thesis
      using v e ops by (simp add: st' handleSubmit_edit)
  qed
qed

text \<open>After the renamed section has been saved, the second save finds nothing.\<close>

theorem resave_without_pending_files_witness:
  "isEditMode titleEdit \<and>
   operations (handleSubmit everyCallSucceeds titleEdit) \<noteq> [] \<and>
   settled (handleSubmit everyCallSucceeds titleEdit) \<and>
   failureCount (handleSubmit everyCallSucceeds titleEdit) = 0 \<and>
   \<not> hasPendingFiles (sections titleEdit) \<and>
   operations (handleSubmit everyCallSucceeds (newState (handleSubmit everyCallSucceeds titleEdit))) = [] \<and>
   totalChanges (handleSubmit everyCallSucceeds (newState (handleSubmit everyCallSucceeds titleEdit))) = 0"
proof -
  have e: "isEditMode titleEdit" by code_simp
  have n: "operations (handleSubmit everyCallSucceeds titleEdit) \<noteq> []" by code_simp
  have c: "settled (handleSubmit everyCallSucceeds titleEdit)" by code_simp
  have f: "failureCount (handleSubmit everyCallSucceeds titleEdit) = 0" by code_simp
  have p: "\<not> hasPendingFiles (sections titleEdit)" by code_simp
  from resave_without_pending_files [OF e c f p, of everyCallSucceeds] e n c f p show ?thesis
    by simp
qed

text \<open>C3 as stated fails: the image picked for a persisted question is uploaded by the
  first save, which completes and succeeds, and detected and uploaded again by the
  second.\<close>

theorem resave_counterexample:
  "settled (handleSubmit everyCallSucceeds pictureEdit) \<and>
   failureCount (handleSubmit everyCallSucceeds pictureEdit) = 0 \<and>
   totalChanges (handleSubmit everyCallSucceeds (newState (handleSubmit everyCallSucceeds pictureEdit))) = 1 \<and>
   operations (handleSubmit everyCallSucceeds (newState (handleSubmit everyCallSucceeds pictureEdit))) =
     [UpdateSurveyEntry (js ''q1'')
        \<lparr> ued_question = js ''Do you smoke?'', ued_questionNumber = Some 1,
          ued_questionType = RADIO, ued_isRequired = True,
          ued_questionImageFile = FileObj 0 \<rparr>]"
  by code_simp

text \<open>A run that issues two calls through one hook does not complete, even when the
  server accepts both: the two renamed choices are sent, the first call never reports
  back, nothing is shown, the snapshot stays, and the next save sends both again.\<close>

lemma two_calls_on_one_hook_example:
  "map submitHook (operations (handleSubmit everyCallSucceeds twoChoiceEdits)) =
     [Some ChoiceHook, Some ChoiceHook] \<and>
   \<not> settled (handleSubmit everyCallSucceeds twoChoiceEdits) \<and>
   toast (handleSubmit everyCallSucceeds twoChoiceEdits) = None \<and>
   newState (handleSubmit everyCallSucceeds twoChoiceEdits) = twoChoiceEdits \<and>
   successCount (handleSubmit everyCallSucceeds twoChoiceEdits) = 1"
  by code_simp

section \<open>Saving a freshly loaded survey\<close>

lemma loadSurvey_addsNothing:
  assumes "isEditMode st0" "\<not> sectionsLoaded st0" "addsNothing focusSection"
  shows "sections (loadSurvey uuid focusSection ls st0) = ls"
    and "originalSectionsSnapshot (loadSurvey uuid focusSection ls st0) = map jsonSection ls"
    and "originalSectionsCount (loadSurvey uuid focusSection ls st0) = length ls"
    and "originalQuestionCounts (loadSurvey uuid focusSection ls st0) =
           map (\<lambda>s. length (entries s)) ls"
    and "editingSurveyId (loadSurvey uuid focusSection ls st0) = editingSurveyId st0"
  using assms
  by (auto simp: loadSurvey_def addsNothing_def Let_def split: option.splits)

lemma transform_no_files: "\<not> hasPendingFiles (transformResponseToForm response)"
  by (auto simp: hasPendingFiles_def list_ex_iff transformResponseToForm_def sectionToForm_def
      Let_def entryToForm_def choiceToForm_def gridRowToForm_def entryHasPendingFile_def)

lemma editModeOperations_loaded:
  assumes "sections st = ls" "originalSectionsSnapshot st = map jsonSection ls"
    "originalSectionsCount st = length ls"
    "originalQuestionCounts st = map (\<lambda>s. length (entries s)) ls"
    "\<not> hasPendingFiles ls"
  shows "editModeOperations st = []"
  using assms
  by (simp add: editModeOperations_def sectionUpdateOps_json entryUpdateOps_json
        newSectionOps_all newEntryOps_all)

text \<open>
  C1, amended. For every survey tree loaded from a server response via
  \<^verbatim>\<open>transformResponseToForm\<close> with no focus action that adds an entry or a section,
  running the edit-mode save with zero user edits detects zero changes, issues no API
  operation and leaves the state as it is; it reports "No changes to save" when the form
  passes \<^verbatim>\<open>validateForm\<close>, and the validation error otherwise.
\<close>

theorem load_then_save_is_noop:
  assumes "isEditMode st0" and "\<not> sectionsLoaded st0" and "addsNothing focusSection"
    and "st = loadSurvey uuid focusSection (transformResponseToForm response) st0"
  shows "operations (handleSubmit ok st) = [] \<and>
         totalChanges (handleSubmit ok st) = 0 \<and>
         newState (handleSubmit ok st) = st \<and>
         toast (handleSubmit ok st) =
           Some (case validateForm st of
                   None \<Rightarrow> ToastMessage NoChangesToSave
                 | Some m \<Rightarrow> ToastError m)"
proof (cases "validateForm st")
  case (Some m)
  then show ?thesis by (simp add: handleSubmit_invalid)
next
  case None
  have ops: "editModeOperations st = []"
    using loadSurvey_addsNothing [OF assms(1-3)] transform_no_files
    by (intro editModeOperations_loaded [where ls = "transformResponseToForm response"])
       (simp_all add: assms(4))
  have edit: "isEditMode st"
    using assms(1) loadSurvey_addsNothing(5) [OF assms(1-3)]
    by (simp add: isEditMode_def assms(4))
  show ?thesis
    using None edit ops by (simp add: handleSubmit_edit handleSubmit_nothing)
qed

text \<open>A loaded survey with a question and a nested follow-up: the save reports that
  there is nothing to save, whatever the network would answer.\<close>

theorem load_then_save_is_noop_witness:
  "isEditMode unloaded \<and> \<not> sectionsLoaded unloaded \<and> addsNothing None \<and>
   validateForm (loadSurvey noUuids None (transformResponseToForm smokingResponse) unloaded) = None \<and>
   operations (handleSubmit everyCallFails
     (loadSurvey noUuids None (transformResponseToForm smokingResponse) unloaded)) = [] \<and>
   toast (handleSubmit everyCallFails
     (loadSurvey noUuids None (transformResponseToForm smokingResponse) unloaded)) =
     Some (ToastMessage NoChangesToSave)"
proof -
  have e: "isEditMode unloaded" by code_simp
  have l: "\<not> sectionsLoaded unloaded" by code_simp
  have a: "addsNothing None" by code_simp
  have v: "validateForm
             (loadSurvey noUuids None (transformResponseToForm smokingResponse) unloaded) = None"
    by code_simp
  from load_then_save_is_noop [OF e l a refl, of everyCallFails noUuids smokingResponse] e l a v
  show ?thesis by simp
qed

text \<open>C1 as stated fails: a loaded survey with a section that has no question does not
  pass the form validation, and the save reports that instead of "No changes to save".\<close>

theorem load_then_save_counterexample:
  "toast (handleSubmit everyCallSucceeds
     (loadSurvey noUuids None (transformResponseToForm emptiedResponse) unloaded)) =
   Some (ToastError (SectionNeedsQuestion (js ''Basics'')))"
  by code_simp

section \<open>Partial failure\<close>




text \<open>One section update and two entry updates, the last of which fails: the first
  entry update never reports back, so the run does not complete and shows no report.\<close>

lemma partial_failure_unsettled_example:
  "map submitHook (operations (handleSubmit allButLastCallSucceed threeEdits)) =
     [Some SectionHook, Some EntryHook, Some EntryHook] \<and>
   \<not> settled (handleSubmit allButLastCallSucceed threeEdits) \<and>
   toast (handleSubmit allButLastCallSucceed threeEdits) = None \<and>
   newState (handleSubmit allButLastCallSucceed threeEdits) = threeEdits"
  by code_simp

section \<open>The validation gate\<close>

lemma validateFollowUps_None:
  "validateFollowUps cs = None \<Longrightarrow> c \<in> set cs \<Longrightarrow> followUpQuestion c = Some fu \<Longrightarrow>
   hasFollowUp c = Some True \<Longrightarrow> isValid (validateSurveyEntry fu)"
  by (induction cs) (auto split: option.splits if_splits)

lemma validateQuestions_None:
  "validateQuestions ttl i es = None \<Longrightarrow> e \<in> set es \<Longrightarrow>
   isValid (validateSurveyEntry e) \<and> validateFollowUps (choices e) = None"
  by (induction es arbitrary: i) (auto split: option.splits if_splits)

lemma validateSections_None:
  "validateSections i secs = None \<Longrightarrow> s \<in> set secs \<Longrightarrow>
   validateQuestions (title s) 0 (entries s) = None"
  by (induction secs arbitrary: i) (auto split: option.splits if_splits)

lemma validateForm_None_valid:
  assumes "validateForm st = None"
  shows "\<not> hasInvalidEntry (sections st)"
proof
  assume "hasInvalidEntry (sections st)"
  then obtain s e where s: "s \<in> set (sections st)" and e: "e \<in> set (entries s)"
    and bad: "\<not> isValid (validateSurveyEntry e) \<or>
              list_ex (\<lambda>c. case followUpQuestion c of
                              None \<Rightarrow> False
                            | Some fu \<Rightarrow> hasFollowUp c = Some True \<and>
                                        \<not> isValid (validateSurveyEntry fu))
                      (choices e)"
    unfolding hasInvalidEntry_def list_ex_iff by blast
  from assms have "validateSections 0 (sections st) = None"
    by (simp add: validateForm_def split: if_splits)
  then have "validateQuestions (title s) 0 (entries s) = None"
    using s by (rule validateSections_None)
  then have "isValid (validateSurveyEntry e) \<and> validateFollowUps (choices e) = None"
    using e by (rule validateQuestions_None)
  with bad show False
    by (auto simp: list_ex_iff split: option.splits dest: validateFollowUps_None)
qed

text \<open>
  C7, amended. For every working tree in which a question, or the active follow-up of
  one of its choices, fails \<^verbatim>\<open>validateSurveyEntry\<close>, the save attempts no operation and
  leaves the state unchanged, and it surfaces one error toast: the single message at
  which \<^verbatim>\<open>validateForm\<close> stopped, which carries at most one entry-level error and not
  the list of all of them.
\<close>

theorem invalid_entry_blocks_save:
  assumes "hasInvalidEntry (sections st)"
  shows "\<exists>m. validateForm st = Some m \<and>
             toast (handleSubmit ok st) = Some (ToastError m) \<and>
             operations (handleSubmit ok st) = [] \<and>
             newState (handleSubmit ok st) = st \<and>
             length (surfacedErrors (toast (handleSubmit ok st))) \<le> 1"
proof -
  from assms obtain m where m: "validateForm st = Some m"
    using validateForm_None_valid by (cases "validateForm st") auto
  have "length (surfacedErrors (Some (ToastError m))) \<le> 1"
    by (cases m) simp_all
  with m show ?thesis by (simp add: handleSubmit_invalid)
qed

text \<open>The blanked question blocks the save.\<close>

theorem invalid_entry_blocks_save_witness:
  "hasInvalidEntry (sections badEdit) \<and>
   toast (handleSubmit everyCallSucceeds badEdit) =
     Some (ToastError (QuestionInvalid (js ''Basics'') 1 ''Question text is required'')) \<and>
   operations (handleSubmit everyCallSucceeds badEdit) = [] \<and>
   newState (handleSubmit everyCallSucceeds badEdit) = badEdit"
proof -
  have h: "hasInvalidEntry (sections badEdit)" by code_simp
  have m: "validateForm badEdit =
             Some (QuestionInvalid (js ''Basics'') 1 ''Question text is required'')"
    by code_simp
  from invalid_entry_blocks_save [OF h, of everyCallSucceeds] h m show ?thesis by auto
qed

text \<open>C7 as stated fails: the question violates two rules, and only the first is shown.\<close>

theorem invalid_entry_counterexample:
  "errors (validateSurveyEntry badQuestion) =
     [''Question text is required'', ''At least 2 choices are required''] \<and>
   surfacedErrors (toast (handleSubmit everyCallSucceeds badEdit)) = [''Question text is required'']"
  by code_simp

section \<open>New sections\<close>

lemma not_create_sectionUpdateOps: "op \<in> set (sectionUpdateOps a b) \<Longrightarrow> \<not> isCreate op"
  by (auto simp: sectionUpdateOps_def split: option.splits if_splits)

lemma not_create_choiceUpdateOps: "op \<in> set (choiceUpdateOps a b) \<Longrightarrow> \<not> isCreate op"
  by (auto simp: choiceUpdateOps_def split: option.splits if_splits)

lemma not_create_gridRowUpdateOps: "op \<in> set (gridRowUpdateOps a b) \<Longrightarrow> \<not> isCreate op"
  by (auto simp: gridRowUpdateOps_def split: option.splits if_splits)

lemma not_create_entryChangeOps: "op \<in> set (entryChangeOps a b) \<Longrightarrow> \<not> isCreate op"
  by (auto simp: entryChangeOps_def split: option.splits if_splits
      dest: not_create_choiceUpdateOps not_create_gridRowUpdateOps)

lemma not_create_entryUpdateOps: "op \<in> set (entryUpdateOps a b) \<Longrightarrow> \<not> isCreate op"
  by (auto simp: entryUpdateOps_def dest: not_create_entryChangeOps)

lemma filter_create_sectionUpdateOps: "filter isCreate (sectionUpdateOps a b) = []"
  by (auto simp: filter_empty_conv dest: not_create_sectionUpdateOps)

lemma filter_create_entryUpdateOps: "filter isCreate (entryUpdateOps a b) = []"
  by (auto simp: filter_empty_conv dest: not_create_entryUpdateOps)

lemma bulk_is_create: "isAddSectionsBulk op \<Longrightarrow> isCreate op"
  by (cases op) simp_all

lemma filter_bulk_sectionUpdateOps: "filter isAddSectionsBulk (sectionUpdateOps a b) = []"
  by (auto simp: filter_empty_conv dest: not_create_sectionUpdateOps bulk_is_create)

lemma filter_bulk_entryUpdateOps: "filter isAddSectionsBulk (entryUpdateOps a b) = []"
  by (auto simp: filter_empty_conv dest: not_create_entryUpdateOps bulk_is_create)

lemma filter_create_newEntryOps: "filter isCreate (newEntryOps c q s) = newEntryOps c q s"
  by (auto simp: filter_id_conv newEntryOps_def split: if_splits)

lemma filter_bulk_newEntryOps: "filter isAddSectionsBulk (newEntryOps c q s) = []"
  by (auto simp: filter_empty_conv newEntryOps_def split: if_splits)

lemma newEntryOps_take: "newEntryOps c q s = newEntryOps c q (take c s)"
  by (simp add: newEntryOps_def)

lemma sp_entries_bulkPayload:
  "map sp_entries (bulkPayload c new) = map (\<lambda>s. flattenEntriesForPayload (entries s)) new"
proof -
  have "map sp_entries (bulkPayload c new) =
        map (\<lambda>s. flattenEntriesForPayload (entries s)) (map snd (enumerate 0 new))"
    by (simp add: bulkPayload_def case_prod_unfold del: map_snd_enumerate)
  then show ?thesis by simp
qed

text \<open>
  C9, amended. For every edit-mode save that passes \<^verbatim>\<open>validateForm\<close> and whose working
  tree has sections beyond the original section count, all of these sections are sent
  in exactly one bulk-create operation, whose payload holds for each of them the
  flattened entries (questions, choices, grid rows and the follow-ups nested in
  choices); the only other create operations of the save are the add-entry calls for
  the original sections.
\<close>

theorem new_sections_in_one_bulk_call:
  assumes "validateForm st = None" and "isEditMode st"
    and "originalSectionsCount st < length (sections st)"
    and "new = drop (originalSectionsCount st) (sections st)"
  shows "filter isAddSectionsBulk (operations (handleSubmit ok st)) =
           [AddSectionsBulk (bulkPayload (originalSectionsCount st) new)] \<and>
         map sp_entries (bulkPayload (originalSectionsCount st) new) =
           map (\<lambda>s. flattenEntriesForPayload (entries s)) new \<and>
         filter isCreate (operations (handleSubmit ok st)) =
           AddSectionsBulk (bulkPayload (originalSectionsCount st) new) #
           newEntryOps (originalSectionsCount st) (originalQuestionCounts st)
             (take (originalSectionsCount st) (sections st))"
proof -
  have ops: "operations (handleSubmit ok st) =
      (sectionUpdateOps (sections st) (originalSectionsSnapshot st) @
       entryUpdateOps (sections st) (originalSectionsSnapshot st)) @
      [AddSectionsBulk (bulkPayload (originalSectionsCount st) new)] @
      newEntryOps (originalSectionsCount st) (originalQuestionCounts st) (sections st)"
    using assms by (simp add: handleSubmit_edit editModeOperations_def newSectionOps_def)
  show ?thesis
    unfolding ops filter_append filter_create_sectionUpdateOps filter_create_entryUpdateOps
      filter_bulk_sectionUpdateOps filter_bulk_entryUpdateOps
      filter_create_newEntryOps filter_bulk_newEntryOps
    using newEntryOps_take [of "originalSectionsCount st" "originalQuestionCounts st" "sections st"]
    by (simp add: sp_entries_bulkPayload)
qed

text \<open>The added section, its two questions and the follow-up travel in one call.\<close>

theorem new_sections_in_one_bulk_call_witness:
  "validateForm sectionAdded = None \<and> isEditMode sectionAdded \<and>
   originalSectionsCount sectionAdded < length (sections sectionAdded) \<and>
   operations (handleSubmit everyCallSucceeds sectionAdded) =
     [AddSectionsBulk (bulkPayload 1 [newSection ''Habits'' smokingEntries])] \<and>
   map (\<lambda>s. map fe_clientId (sp_entries s)) (bulkPayload 1 [newSection ''Habits'' smokingEntries]) =
     [[js ''q1'', js ''f1'', js ''q2'']]"
proof -
  have v: "validateForm sectionAdded = None" by code_simp
  have e: "isEditMode sectionAdded" by code_simp
  have c: "originalSectionsCount sectionAdded < length (sections sectionAdded)" by code_simp
  have n: "[newSection ''Habits'' smokingEntries] =
             drop (originalSectionsCount sectionAdded) (sections sectionAdded)"
    by code_simp
  have ops: "operations (handleSubmit everyCallSucceeds sectionAdded) =
               filter isCreate (operations (handleSubmit everyCallSucceeds sectionAdded))"
    by code_simp
  have one: "originalSectionsCount sectionAdded = 1" by code_simp
  have none: "newEntryOps (Suc 0) (originalQuestionCounts sectionAdded)
                (take (Suc 0) (sections sectionAdded)) = []"
    by code_simp
  have ids: "map (\<lambda>s. map fe_clientId (sp_entries s))
               (bulkPayload 1 [newSection ''Habits'' smokingEntries]) =
             [[js ''q1'', js ''f1'', js ''q2'']]"
    by code_simp
  from new_sections_in_one_bulk_call [OF v e c n, of everyCallSucceeds] v e c ops ids show ?thesis
    by (simp add: one none)
qed

text \<open>C9 as stated fails: a section that was added and left with its blank question
  does not pass the form validation, and nothing is sent.\<close>

theorem new_sections_counterexample:
  "isEditMode blankSectionAdded \<and>
   originalSectionsCount blankSectionAdded < length (sections blankSectionAdded) \<and>
   operations (handleSubmit everyCallSucceeds blankSectionAdded) = [] \<and>
   toast (handleSubmit everyCallSucceeds blankSectionAdded) =
     Some (ToastError (QuestionInvalid (js ''Section 2'') 1 ''Question text is required''))"
  by code_simp

section \<open>Nesting follow-ups on load\<close>

lemma case_filter_find:
  "(case filter P xs of [] \<Rightarrow> None | x # _ \<Rightarrow> Some (f x)) = map_option f (find P xs)"
  by (induction xs) simp_all

lemma followUpQuestion_choiceToForm:
  "followUpQuestion (choiceToForm fus e c) = map_option (followUpToForm e c) (find (triggeredBy e c) fus)"
  by (simp add: choiceToForm_def relevantFollowUps_def case_filter_find)

lemma find_filter_Cons: "filter P xs = x # rest \<Longrightarrow> find P xs = Some x"
  by (induction xs) (auto split: if_splits)

lemma nested_ids_of_choice:
  "(case followUpQuestion (choiceToForm fus e c) of None \<Rightarrow> [] | Some fu \<Rightarrow> [e_id fu]) =
   (case find (triggeredBy e c) fus of None \<Rightarrow> [] | Some fu \<Rightarrow> [Some (re_id fu)])"
  by (simp add: followUpQuestion_choiceToForm followUpToForm_def split: option.splits)

lemma nestedFollowUpIds_transform:
  "nestedFollowUpIds (transformResponseToForm response) =
     concat (map (\<lambda>sec. concat (map (\<lambda>e. concat (map (\<lambda>c.
        (case find (triggeredBy e c) (filter re_isFollowUp (rs_entries sec)) of
           None \<Rightarrow> [] | Some fu \<Rightarrow> [Some (re_id fu)]))
        (re_choices e))) (filter (\<lambda>e. \<not> re_isFollowUp e) (rs_entries sec))))
      (rd_sections response))"
  by (simp add: nestedFollowUpIds_def transformResponseToForm_def sectionToForm_def Let_def
      entryToForm_def nested_ids_of_choice comp_def)

lemma in_set_case_option:
  "x \<in> set (case opt of None \<Rightarrow> [] | Some fu \<Rightarrow> [g fu]) \<longleftrightarrow> (\<exists>fu. opt = Some fu \<and> x = g fu)"
  by (cases opt) auto

lemma nested_id_iff:
  "x \<in> set (nestedFollowUpIds (transformResponseToForm response)) \<longleftrightarrow>
     (\<exists>sec\<in>set (rd_sections response). \<exists>e\<in>set (rs_entries sec). \<exists>c\<in>set (re_choices e).
        \<exists>fu'. \<not> re_isFollowUp e \<and>
          find (triggeredBy e c) (filter re_isFollowUp (rs_entries sec)) = Some fu' \<and>
          x = Some (re_id fu'))"
  unfolding nestedFollowUpIds_transform
  apply (simp add: in_set_case_option)
  apply (rule iffI; clarify; metis)
  done

text \<open>
  C8, amended. For every server response and every choice of a main (non-follow-up)
  entry of one of its sections such that several follow-up entries of that section
  name the entry as their parent and include the id of the choice in their trigger
  sets, \<^verbatim>\<open>transformResponseToForm\<close> nests only the first of them (in the order of the
  flat list) under that choice. The questions of every rebuilt section are exactly its
  non-follow-up entries, in their order, so no follow-up is a question of a section
  itself; and a remaining follow-up appears nested in the rebuilt tree exactly when it
  is the first match of some choice of a main entry of its section, and nowhere
  otherwise.
\<close>

theorem first_match_nesting:
  assumes "section \<in> set (rd_sections response)"
    and "followUpEntries = filter re_isFollowUp (rs_entries section)"
    and "entry \<in> set (rs_entries section)" and "\<not> re_isFollowUp entry"
    and "choice \<in> set (re_choices entry)"
    and "relevantFollowUps followUpEntries entry choice = first # rest"
    and "fu \<in> set rest"
  shows "followUpQuestion (choiceToForm followUpEntries entry choice) =
           Some (followUpToForm entry choice first) \<and>
         choiceToForm followUpEntries entry choice \<in>
           set (choices (entryToForm followUpEntries entry)) \<and>
         entryToForm followUpEntries entry \<in> set (entries (sectionToForm section)) \<and>
         map (\<lambda>s. map e_id (entries s)) (transformResponseToForm response) =
           map (\<lambda>sec. map (\<lambda>e. Some (re_id e)) (filter (\<lambda>e. \<not> re_isFollowUp e) (rs_entries sec)))
               (rd_sections response) \<and>
         (Some (re_id fu) \<in> set (nestedFollowUpIds (transformResponseToForm response)) \<longleftrightarrow>
          (\<exists>sec\<in>set (rd_sections response). \<exists>e\<in>set (rs_entries sec). \<exists>c\<in>set (re_choices e).
             \<exists>fu'. \<not> re_isFollowUp e \<and>
               find (triggeredBy e c) (filter re_isFollowUp (rs_entries sec)) = Some fu' \<and>
               re_id fu' = re_id fu))"
proof -
  from assms(6) have "find (triggeredBy entry choice) followUpEntries = Some first"
    unfolding relevantFollowUps_def by (rule find_filter_Cons)
  then have 1: "followUpQuestion (choiceToForm followUpEntries entry choice) =
           Some (followUpToForm entry choice first)"
    by (simp add: followUpQuestion_choiceToForm)
  have 2: "choiceToForm followUpEntries entry choice \<in>
           set (choices (entryToForm followUpEntries entry))"
    using assms(5) by (simp add: entryToForm_def)
  have 3: "entryToForm followUpEntries entry \<in> set (entries (sectionToForm section))"
    using assms(2,3,4) by (simp add: sectionToForm_def Let_def)
  have 4: "(Some (re_id fu) \<in> set (nestedFollowUpIds (transformResponseToForm response)) \<longleftrightarrow>
          (\<exists>sec\<in>set (rd_sections response). \<exists>e\<in>set (rs_entries sec). \<exists>c\<in>set (re_choices e).
             \<exists>fu'. \<not> re_isFollowUp e \<and>
               find (triggeredBy e c) (filter re_isFollowUp (rs_entries sec)) = Some fu' \<and>
               re_id fu' = re_id fu))"
    unfolding nested_id_iff by (metis option.inject)
  have 5: "map (\<lambda>s. map e_id (entries s)) (transformResponseToForm response) =
           map (\<lambda>sec. map (\<lambda>e. Some (re_id e)) (filter (\<lambda>e. \<not> re_isFollowUp e) (rs_entries sec)))
               (rd_sections response)"
    by (simp add: transformResponseToForm_def sectionToForm_def Let_def entryToForm_def comp_def)
  from 1 2 3 4 5 show ?thesis by blast
qed

text \<open>Two follow-ups on the choice "Yes": the first is nested, the second is gone.\<close>

theorem first_match_nesting_witness:
  "relevantFollowUps [howOften, sinceWhen] smokingQuestion yesChoice = [howOften, sinceWhen] \<and>
   followUpQuestion (choiceToForm [howOften, sinceWhen] smokingQuestion yesChoice) =
     Some (followUpToForm smokingQuestion yesChoice howOften) \<and>
   map (\<lambda>s. map e_id (entries s)) (transformResponseToForm sharedTriggerResponse) =
     [[Some (js ''q1'')]] \<and>
   Some (re_id sinceWhen) \<notin> set (nestedFollowUpIds (transformResponseToForm sharedTriggerResponse))"
proof -
  have top: "map (\<lambda>sec. map (\<lambda>e. Some (re_id e)) (filter (\<lambda>e. \<not> re_isFollowUp e) (rs_entries sec)))
               (rd_sections sharedTriggerResponse) = [[Some (js ''q1'')]]"
    by code_simp
  have a1: "basicsSection [smokingQuestion, howOften, sinceWhen] \<in>
              set (rd_sections sharedTriggerResponse)"
    by (simp add: sharedTriggerResponse_def surveyResponse_def)
  have a2: "[howOften, sinceWhen] =
              filter re_isFollowUp (rs_entries (basicsSection [smokingQuestion, howOften, sinceWhen]))"
    by code_simp
  have a3: "smokingQuestion \<in> set (rs_entries (basicsSection [smokingQuestion, howOften, sinceWhen]))"
    by (simp add: basicsSection_def)
  have a4: "\<not> re_isFollowUp smokingQuestion" by code_simp
  have a5: "yesChoice \<in> set (re_choices smokingQuestion)"
    by (simp add: smokingQuestion_def mainResponse_def)
  have a6: "relevantFollowUps [howOften, sinceWhen] smokingQuestion yesChoice =
              howOften # [sinceWhen]"
    by code_simp
  have a7: "sinceWhen \<in> set [sinceWhen]" by simp
  have gone: "Some (re_id sinceWhen) \<notin>
                set (nestedFollowUpIds (transformResponseToForm sharedTriggerResponse))"
    by code_simp
  from first_match_nesting [OF a1 a2 a3 a4 a5 a6 a7] a6 gone top show ?thesis by simp
qed

text \<open>C8 as stated fails: the second follow-up on "Yes" is not nested there, but it is
  also triggered by "No", where it is the first match, so it does appear in the tree.\<close>

theorem first_match_nesting_counterexample:
  "relevantFollowUps [howOften, whyThat] smokingQuestion yesChoice = [howOften, whyThat] \<and>
   nestedFollowUpIds (transformResponseToForm overlappingTriggerResponse) =
     [Some (re_id howOften), Some (re_id whyThat)]"
  by code_simp

section \<open>The order of the operations of one question\<close>

lemma followUpOps_only_AddEntry: "b \<in> set (followUpOps sid cur n cs) \<Longrightarrow> isAddEntry b"
  by (induction cs arbitrary: n) (auto split: option.splits if_splits)

lemma entrySaveOps_kind: "a \<in> set (entrySaveOps eid cur orig) \<Longrightarrow> isUpdateSurveyEntry a"
  by (auto simp: entrySaveOps_def split: option.splits if_splits)

lemma choiceDeleteOps_kind: "a \<in> set (choiceDeleteOps cur orig) \<Longrightarrow> isDeleteChoice a"
  by (auto simp: choiceDeleteOps_def Let_def split: option.splits if_splits)

lemma choiceSaveOps_kind:
  "b \<in> set (choiceSaveOps eid cur orig) \<Longrightarrow> \<not> isUpdateSurveyEntry b \<and> \<not> isDeleteChoice b"
  by (auto simp: choiceSaveOps_def Let_def split: option.splits if_splits)

lemma gridRowDeleteOps_kind:
  "b \<in> set (gridRowDeleteOps cur orig) \<Longrightarrow> \<not> isUpdateSurveyEntry b \<and> \<not> isDeleteChoice b"
  by (auto simp: gridRowDeleteOps_def Let_def split: option.splits if_splits)

lemma gridRowSaveOps_kind:
  "b \<in> set (gridRowSaveOps eid cur orig) \<Longrightarrow> \<not> isUpdateSurveyEntry b \<and> \<not> isDeleteChoice b"
  by (auto simp: gridRowSaveOps_def Let_def split: option.splits if_splits)

lemma basicOperations_split:
  "\<exists>pre post. basicOperations eid cur orig = pre @ post \<and>
     (\<forall>a\<in>set pre. isUpdateSurveyEntry a \<or> isDeleteChoice a) \<and>
     (\<forall>b\<in>set post. \<not> isUpdateSurveyEntry b \<and> \<not> isDeleteChoice b)"
proof (intro exI conjI)
  show "basicOperations eid cur orig =
          (entrySaveOps eid cur orig @ choiceDeleteOps cur orig) @
          (choiceSaveOps eid cur orig @ gridRowDeleteOps cur orig @ gridRowSaveOps eid cur orig)"
    by (simp add: basicOperations_def)
  show "\<forall>a\<in>set (entrySaveOps eid cur orig @ choiceDeleteOps cur orig).
          isUpdateSurveyEntry a \<or> isDeleteChoice a"
    by (auto dest: entrySaveOps_kind choiceDeleteOps_kind)
  show "\<forall>b\<in>set (choiceSaveOps eid cur orig @ gridRowDeleteOps cur orig @
                   gridRowSaveOps eid cur orig).
          \<not> isUpdateSurveyEntry b \<and> \<not> isDeleteChoice b"
    using choiceSaveOps_kind gridRowDeleteOps_kind gridRowSaveOps_kind
    by (metis Un_iff set_append)
qed

lemma wave1_cases:
  "wave1 (handleSaveCurrentQuestion ok st) = [] \<or>
   (\<exists>eid cur orig. wave1 (handleSaveCurrentQuestion ok st) = basicOperations eid cur orig)"
  by (auto simp: handleSaveCurrentQuestion_def Let_def split: option.splits)

lemma wave2_cases:
  "wave2 (handleSaveCurrentQuestion ok st) = [] \<or>
   (\<exists>sid cur n cs. wave2 (handleSaveCurrentQuestion ok st) = followUpOps sid cur n cs)"
  by (auto simp: handleSaveCurrentQuestion_def Let_def split: option.splits)

text \<open>
  C4, amended. For every existing entry, also one whose question type changed, the
  save of the question issues the entry update and the deletions of obsolete choices
  first and every creation of a choice or grid row after them, but all in one wave:
  the calls are started in that order and awaited together, so the update and the
  deletions are not completed before the creations are dispatched. Only the creation
  of follow-up questions waits for that wave.
\<close>

theorem basic_operations_share_one_wave:
  "(\<exists>pre post. wave1 (handleSaveCurrentQuestion ok st) = pre @ post \<and>
      (\<forall>a\<in>set pre. isUpdateSurveyEntry a \<or> isDeleteChoice a) \<and>
      (\<forall>b\<in>set post. \<not> isUpdateSurveyEntry b \<and> \<not> isDeleteChoice b)) \<and>
   (\<forall>b\<in>set (wave2 (handleSaveCurrentQuestion ok st)). isAddEntry b) \<and>
   (\<forall>a b. isAddGridRow b \<longrightarrow> \<not> completedBeforeDispatch (handleSaveCurrentQuestion ok st) a b)"
proof -
  have 1: "\<exists>pre post. wave1 (handleSaveCurrentQuestion ok st) = pre @ post \<and>
      (\<forall>a\<in>set pre. isUpdateSurveyEntry a \<or> isDeleteChoice a) \<and>
      (\<forall>b\<in>set post. \<not> isUpdateSurveyEntry b \<and> \<not> isDeleteChoice b)"
    using wave1_cases [of ok st]
  proof
    assume "wave1 (handleSaveCurrentQuestion ok st) = []"
    then show ?thesis by simp
  next
    assume "\<exists>eid cur orig. wave1 (handleSaveCurrentQuestion ok st) = basicOperations eid cur orig"
    then show ?thesis using basicOperations_split by metis
  qed
  have 2: "\<forall>b\<in>set (wave2 (handleSaveCurrentQuestion ok st)). isAddEntry b"
    using wave2_cases [of ok st] by (auto dest: followUpOps_only_AddEntry)
  have 3: "\<forall>a b. isAddGridRow b \<longrightarrow> \<not> completedBeforeDispatch (handleSaveCurrentQuestion ok st) a b"
  proof (intro allI impI)
    fix a b assume g: "isAddGridRow b"
    then have "\<not> isAddEntry b" by (cases b) simp_all
    with 2 have "b \<notin> set (wave2 (handleSaveCurrentQuestion ok st))" by blast
    then show "\<not> completedBeforeDispatch (handleSaveCurrentQuestion ok st) a b"
      by (simp add: completedBeforeDispatch_def)
  qed
  from 1 2 3 show ?thesis by blast
qed

text \<open>Single-choice with "Yes" and "No" turned into a grid: one wave of seven calls.\<close>

theorem basic_operations_share_one_wave_witness:
  "wave1 (handleSaveCurrentQuestion everyCallSucceeds typeChanged) =
     [UpdateSurveyEntry (js ''q1'') (updateEntryData gridQuestion),
      DeleteChoice (js ''c1''), DeleteChoice (js ''c2'')] @
     [AddChoice (js ''q1'') (choiceData 0 (newChoice ''n1'' ''A'' ''Often'')),
      AddChoice (js ''q1'') (choiceData 1 (newChoice ''n2'' ''B'' ''Never'')),
      AddGridRow (js ''q1'') (gridRowData 0 (newRow 1 ''At home'')),
      AddGridRow (js ''q1'') (gridRowData 1 (newRow 2 ''At work''))] \<and>
   \<not> completedBeforeDispatch (handleSaveCurrentQuestion everyCallSucceeds typeChanged)
       (DeleteChoice (js ''c2''))
       (AddGridRow (js ''q1'') (gridRowData 1 (newRow 2 ''At work'')))"
proof -
  have w: "wave1 (handleSaveCurrentQuestion everyCallSucceeds typeChanged) =
     [UpdateSurveyEntry (js ''q1'') (updateEntryData gridQuestion),
      DeleteChoice (js ''c1''), DeleteChoice (js ''c2'')] @
     [AddChoice (js ''q1'') (choiceData 0 (newChoice ''n1'' ''A'' ''Often'')),
      AddChoice (js ''q1'') (choiceData 1 (newChoice ''n2'' ''B'' ''Never'')),
      AddGridRow (js ''q1'') (gridRowData 0 (newRow 1 ''At home'')),
      AddGridRow (js ''q1'') (gridRowData 1 (newRow 2 ''At work''))]"
    by code_simp
  have g: "isAddGridRow (AddGridRow (js ''q1'') (gridRowData 1 (newRow 2 ''At work'')))"
    by simp
  from basic_operations_share_one_wave [of everyCallSucceeds typeChanged] w g show ?thesis
    by blast
qed

text \<open>C4 as stated fails: the deletion of "Yes" and the entry update are in the same
  wave as the creation of the first grid row, not in a wave completed before it.\<close>

theorem type_change_counterexample:
  "DeleteChoice (js ''c1'') \<in> set (wave1 (handleSaveCurrentQuestion everyCallSucceeds typeChanged)) \<and>
   UpdateSurveyEntry (js ''q1'') (updateEntryData gridQuestion)
     \<in> set (wave1 (handleSaveCurrentQuestion everyCallSucceeds typeChanged)) \<and>
   AddGridRow (js ''q1'') (gridRowData 0 (newRow 1 ''At home''))
     \<in> set (wave1 (handleSaveCurrentQuestion everyCallSucceeds typeChanged)) \<and>
   \<not> completedBeforeDispatch (handleSaveCurrentQuestion everyCallSucceeds typeChanged)
       (DeleteChoice (js ''c1''))
       (AddGridRow (js ''q1'') (gridRowData 0 (newRow 1 ''At home''))) \<and>
   \<not> completedBeforeDispatch (handleSaveCurrentQuestion everyCallSucceeds typeChanged)
       (UpdateSurveyEntry (js ''q1'') (updateEntryData gridQuestion))
       (AddGridRow (js ''q1'') (gridRowData 0 (newRow 1 ''At home'')))"
  by code_simp

section \<open>A new follow-up on a new choice of an existing question\<close>

lemma followUpOps_new_choice:
  assumes "choice \<in> set cs" "\<not> truthy (c_id choice)" "hasFollowUp choice = Some True"
    "followUpQuestion choice = Some followUp" "\<not> truthy (e_id followUp)"
  shows "\<exists>k. AddEntry sid (followUpData k followUp (Some (clientId cur)) (Some [c_clientId choice])
                 None None) \<in> set (followUpOps sid cur n cs)"
  using assms
proof (induction cs arbitrary: n)
  case Nil
  then show ?case by simp
next
  case (Cons c cs)
  show ?case
  proof (cases "c = choice")
    case True
    with Cons.prems show ?thesis by auto
  next
    case False
    with Cons.prems have "choice \<in> set cs" by simp
    from Cons.IH [OF this Cons.prems(2-5)]
    have "\<exists>k. AddEntry sid (followUpData k followUp (Some (clientId cur))
                 (Some [c_clientId choice]) None None) \<in> set (followUpOps sid cur m cs)" for m
      by blast
    then show ?thesis
      by (auto split: option.splits)
  qed
qed

text \<open>
  C6, amended. For every new follow-up question (no server id) of an existing entry
  whose triggering choice is new in the same save, saving the question never surfaces
  a sequencing error. When the entry fails \<^verbatim>\<open>validateSurveyEntry\<close>, the save shows that
  validation error and creates no follow-up; when one of the basic operations is
  rejected, it reports that the question could not be saved and creates no follow-up;
  otherwise it issues an add-entry call for the follow-up that refers to the parent by
  the parent's client id and to the choice by the choice's client id, and reports
  success.
\<close>

theorem new_follow_up_on_new_choice:
  assumes "entryAt (sections st) (selectedSection st) (selectedQuestion st) = Some currentEntry"
    and "truthy (e_id currentEntry)"
    and "choice \<in> set (choices currentEntry)"
    and "\<not> truthy (c_id choice)"
    and "hasFollowUp choice = Some True"
    and "followUpQuestion choice = Some followUp"
    and "\<not> truthy (e_id followUp)"
  shows "sq_toast (handleSaveCurrentQuestion ok st) =
           (if \<not> isValid (validateSurveyEntry currentEntry)
            then ToastError (EntryInvalid (firstError (validateSurveyEntry currentEntry)))
            else if rejected ok (wave1 (handleSaveCurrentQuestion ok st))
            then ToastError FailedToSaveQuestion
            else ToastSuccess QuestionSaved) \<and>
         (if isValid (validateSurveyEntry currentEntry) \<and>
             \<not> rejected ok (wave1 (handleSaveCurrentQuestion ok st))
          then \<exists>sectionId followUpNumber.
                 AddEntry sectionId
                   (followUpData followUpNumber followUp
                      (Some (clientId currentEntry)) (Some [c_clientId choice]) None None)
                 \<in> set (wave2 (handleSaveCurrentQuestion ok st))
          else wave2 (handleSaveCurrentQuestion ok st) = [])"
proof -
  from assms(2) obtain eid where eid: "e_id currentEntry = Some eid" "eid \<noteq> []"
    by (auto simp: truthy_def split: option.splits)
  let ?orig = "entryAt (originalSectionsSnapshot st) (selectedSection st) (selectedQuestion st)"
  let ?sid = "case nthOpt (sections st) (selectedSection st) of None \<Rightarrow> None | Some s \<Rightarrow> s_id s"
  let ?fus = "followUpOps ?sid currentEntry (getNextQuestionNumber (sections st))
                (choices currentEntry)"
  show ?thesis
  proof (cases "isValid (validateSurveyEntry currentEntry)")
    case False
    with assms(1) eid show ?thesis
      by (simp add: handleSaveCurrentQuestion_def Let_def)
  next
    case valid: True
    have w1: "wave1 (handleSaveCurrentQuestion ok st) = basicOperations eid currentEntry ?orig"
      using assms(1) valid eid by (simp add: handleSaveCurrentQuestion_def Let_def)
    show ?thesis
    proof (cases "rejected ok (basicOperations eid currentEntry ?orig)")
      case True
      with assms(1) valid eid show ?thesis
        by (simp add: handleSaveCurrentQuestion_def Let_def)
    next
      case nr: False
      obtain k where k: "AddEntry ?sid (followUpData k followUp (Some (clientId currentEntry))
                           (Some [c_clientId choice]) None None) \<in> set ?fus"
        using followUpOps_new_choice [OF assms(3-7)] by blast
      then have ne: "?fus \<noteq> []" by auto
      have w2: "wave2 (handleSaveCurrentQuestion ok st) = ?fus"
        and t: "sq_toast (handleSaveCurrentQuestion ok st) = ToastSuccess QuestionSaved"
        using assms(1) valid eid nr ne by (simp_all add: handleSaveCurrentQuestion_def Let_def)
      from k have "\<exists>sectionId followUpNumber.
                 AddEntry sectionId
                   (followUpData followUpNumber followUp
                      (Some (clientId currentEntry)) (Some [c_clientId choice]) None None)
                 \<in> set ?fus"
        by blast
      with valid nr t show ?thesis by (simp add: w1 w2)
    qed
  qed
qed

text \<open>The follow-up "When?" on the new choice "Sometimes" is created with client ids.\<close>

theorem new_follow_up_on_new_choice_witness:
  "entryAt (sections followUpAdded) (selectedSection followUpAdded)
     (selectedQuestion followUpAdded) = Some extendedQuestion \<and>
   truthy (e_id extendedQuestion) \<and> isValid (validateSurveyEntry extendedQuestion) \<and>
   \<not> rejected everyCallSucceeds (wave1 (handleSaveCurrentQuestion everyCallSucceeds followUpAdded)) \<and>
   sometimesChoice \<in> set (choices extendedQuestion) \<and> \<not> truthy (c_id sometimesChoice) \<and>
   hasFollowUp sometimesChoice = Some True \<and>
   followUpQuestion sometimesChoice = Some whenFollowUp \<and> \<not> truthy (e_id whenFollowUp) \<and>
   sq_toast (handleSaveCurrentQuestion everyCallSucceeds followUpAdded) = ToastSuccess QuestionSaved \<and>
   wave2 (handleSaveCurrentQuestion everyCallSucceeds followUpAdded) =
     [AddEntry (Some (js ''s1''))
        (followUpData 3 whenFollowUp (Some (js ''q1'')) (Some [js ''n3'']) None None)]"
proof -
  have a1: "entryAt (sections followUpAdded) (selectedSection followUpAdded)
              (selectedQuestion followUpAdded) = Some extendedQuestion"
    by code_simp
  have a2: "truthy (e_id extendedQuestion)" by code_simp
  have a3: "isValid (validateSurveyEntry extendedQuestion)" by code_simp
  have a4: "\<not> rejected everyCallSucceeds (wave1 (handleSaveCurrentQuestion everyCallSucceeds followUpAdded))"
    by code_simp
  have a5: "sometimesChoice \<in> set (choices extendedQuestion)"
    by (simp add: extendedQuestion_def savedEntry_def)
  have a6: "\<not> truthy (c_id sometimesChoice)" by code_simp
  have a7: "hasFollowUp sometimesChoice = Some True" by code_simp
  have a8: "followUpQuestion sometimesChoice = Some whenFollowUp"
    by (simp add: sometimesChoice_def newChoiceWithFollowUp_def)
  have a9: "\<not> truthy (e_id whenFollowUp)" by code_simp
  have w: "wave2 (handleSaveCurrentQuestion everyCallSucceeds followUpAdded) =
     [AddEntry (Some (js ''s1''))
        (followUpData 3 whenFollowUp (Some (js ''q1'')) (Some [js ''n3'']) None None)]"
    by code_simp
  from new_follow_up_on_new_choice [OF a1 a2 a5 a6 a7 a8 a9, of everyCallSucceeds]
    a1 a2 a3 a4 a5 a6 a7 a8 a9 w
  show ?thesis by simp
qed

text \<open>C6 as stated fails: the save reports success, not an error, and the follow-up is
  created with the client ids of the existing parent and of the new choice.\<close>

theorem new_follow_up_counterexample:
  "e_id extendedQuestion = Some (js ''q1'') \<and> c_id sometimesChoice = None \<and>
   e_id whenFollowUp = None \<and>
   sq_toast (handleSaveCurrentQuestion everyCallSucceeds followUpAdded) = ToastSuccess QuestionSaved \<and>
   wave1 (handleSaveCurrentQuestion everyCallSucceeds followUpAdded) =
     [AddChoice (js ''q1'')
        \<lparr> cd_clientId = js ''n3'', cd_choiceOrder = js ''C'', cd_choiceText = js ''Sometimes'',
          cd_choiceImageFile = NoFile, cd_hasTextInput = False \<rparr>] \<and>
   wave2 (handleSaveCurrentQuestion everyCallSucceeds followUpAdded) =
     [AddEntry (Some (js ''s1''))
        \<lparr> ed_clientId = js ''f9'', ed_question = js ''When?'', ed_questionNumber = Some 3,
          ed_questionType = TEXT, ed_isRequired = False, ed_isFollowUp = True,
          ed_parentQuestionClientId = Some (js ''q1''),
          ed_triggerChoiceClientIds = Some [js ''n3''],
          ed_parentQuestionId = None, ed_triggerChoiceIds = None,
          ed_questionImageFile = NoFile, ed_choices = [], ed_gridRows = [] \<rparr>]"
  by code_simp

text \<open>With the text of the new choice left blank, the save stops at the validation of
  the question: an error is shown, and no call is issued for the follow-up.\<close>

lemma blank_new_choice_example:
  "sq_toast (handleSaveCurrentQuestion everyCallSucceeds blankChoiceAdded) =
     ToastError (EntryInvalid ''All choices must have text or an image'') \<and>
   wave1 (handleSaveCurrentQuestion everyCallSucceeds blankChoiceAdded) = [] \<and>
   wave2 (handleSaveCurrentQuestion everyCallSucceeds blankChoiceAdded) = []"
  by code_simp

end
